theory Spec2Isabelle
  imports Complex_Main "HOL-Library.Product_Lexorder"
begin

section \<open>Data model (models.py)\<close>

text \<open>
  Primary keys and foreign keys are SQL integers. A \<open>datetime\<close> is a point on the time
  line counted in whole seconds, so that \<open>timedelta(minutes=15)\<close> is 900. The status
  columns are strings in the source and stay strings here. The record fields carry the
  table aliases that reports.py uses in its SQL (\<open>s\<close>, \<open>e\<close>, \<open>r\<close>, \<open>a\<close>, \<open>f\<close>).
\<close>

type_synonym datetime = int

record Student =
  s_id :: int
  s_college_id :: int
  s_student_id :: string
  s_name :: string
  s_email :: string

record Event =
  e_id :: int
  e_college_id :: int
  e_title :: string
  e_event_type :: string
  e_start_time :: datetime
  e_end_time :: datetime
  e_max_capacity :: int
  e_current_registrations :: int
  e_status :: string

record Registration =
  r_id :: int
  r_student_id :: int
  r_event_id :: int
  r_registered_at :: datetime
  r_status :: string

record Attendance =
  a_id :: int
  a_registration_id :: int
  a_check_in_time :: "datetime option"
  a_check_out_time :: "datetime option"
  a_status :: string

record Feedback =
  f_id :: int
  f_registration_id :: int
  f_rating :: int
  f_comment :: "string option"
  f_submitted_at :: datetime

text \<open>
  The committed contents of the database: one list of rows per table, in storage order.
  \<open>query.first()\<close> without ORDER BY is the first matching row of that list.
\<close>

record db =
  students :: "Student list"
  events :: "Event list"
  registrations :: "Registration list"
  attendance :: "Attendance list"
  feedback :: "Feedback list"

text \<open>
  Every failure of a request is a value: the \<open>HTTPException(status_code, detail)\<close> the
  handlers raise, the \<open>ValueError\<close> of a pydantic validator (the request never reaches
  the handler), and the \<open>IntegrityError\<close> of a commit that violates a CHECK constraint.
\<close>

datatype error =
    HTTPException int string
  | ValueError string
  | IntegrityError string

text \<open>
  A handler works on a session (\<open>autoflush=False\<close>) and writes the database only in
  \<open>db.commit()\<close>. A handler that raises never reaches its commit, and \<open>get_db\<close> closes
  the session, so the database is the one the request started with. A handler is
  therefore a function to a pair: the response or the error, and the database afterwards.
\<close>

type_synonym 'a response = "(error + 'a) \<times> db"

text \<open>\<open>sqlite_autoincrement\<close>: a new row gets a key above every key in the table.\<close>

definition next_id :: "int list \<Rightarrow> int" where
  "next_id ids = foldr max ids 0 + 1"

definition get_student :: "db \<Rightarrow> int \<Rightarrow> Student option" where
  "get_student d k = find (\<lambda>s. s_id s = k) (students d)"

definition get_event :: "db \<Rightarrow> int \<Rightarrow> Event option" where
  "get_event d k = find (\<lambda>e. e_id e = k) (events d)"

definition get_registration :: "db \<Rightarrow> int \<Rightarrow> Registration option" where
  "get_registration d k = find (\<lambda>r. r_id r = k) (registrations d)"

text \<open>The UPDATE the session emits for a changed object: by primary key.\<close>

definition update_event :: "Event \<Rightarrow> Event list \<Rightarrow> Event list" where
  "update_event ev es = map (\<lambda>e. if e_id e = e_id ev then ev else e) es"

definition update_registration :: "Registration \<Rightarrow> Registration list \<Rightarrow> Registration list" where
  "update_registration rg rs = map (\<lambda>r. if r_id r = r_id rg then rg else r) rs"

definition update_attendance :: "Attendance \<Rightarrow> Attendance list \<Rightarrow> Attendance list" where
  "update_attendance att atts = map (\<lambda>a. if a_id a = a_id att then att else a) atts"


section \<open>Registration endpoints (main.py)\<close>

record RegistrationCreate =
  rc_student_id :: int
  rc_event_id :: int

text \<open>
  \<open>register_student\<close>; \<open>now\<close> is the value of \<open>datetime.now()\<close> in the request. The new
  row takes the column defaults \<open>registered_at = now\<close> and \<open>status = 'registered'\<close>.
\<close>

definition register_student :: "RegistrationCreate \<Rightarrow> datetime \<Rightarrow> db \<Rightarrow> Registration response" where
  "register_student registration now d =
    (case get_student d (rc_student_id registration) of
       None \<Rightarrow> (Inl (HTTPException 404 ''Student not found''), d)
     | Some student \<Rightarrow>
    (case get_event d (rc_event_id registration) of
       None \<Rightarrow> (Inl (HTTPException 404 ''Event not found''), d)
     | Some event \<Rightarrow>
       if e_status event \<noteq> ''active''
       then (Inl (HTTPException 400 ''Event is not active for registration''), d)
       else if e_start_time event \<le> now
       then (Inl (HTTPException 400 ''Cannot register for past events''), d)
       else
        (case find (\<lambda>r. r_student_id r = rc_student_id registration \<and>
                         r_event_id r = rc_event_id registration) (registrations d) of
           Some existing_registration \<Rightarrow>
             (Inl (HTTPException 400 ''Student already registered for this event''), d)
         | None \<Rightarrow>
             if e_current_registrations event \<ge> e_max_capacity event
             then (Inl (HTTPException 400 ''Event is at full capacity''), d)
             else
               let db_registration =
                     \<lparr> r_id = next_id (map r_id (registrations d)),
                       r_student_id = rc_student_id registration,
                       r_event_id = rc_event_id registration,
                       r_registered_at = now,
                       r_status = ''registered'' \<rparr>;
                   event' = event\<lparr> e_current_registrations := e_current_registrations event + 1 \<rparr>
               in (Inr db_registration,
                   d\<lparr> registrations := registrations d @ [db_registration],
                      events := update_event event' (events d) \<rparr>))))"

text \<open>\<open>cancel_registration\<close>: no look at the registration's current status.\<close>

definition cancel_registration :: "int \<Rightarrow> db \<Rightarrow> string response" where
  "cancel_registration registration_id d =
    (case get_registration d registration_id of
       None \<Rightarrow> (Inl (HTTPException 404 ''Registration not found''), d)
     | Some registration \<Rightarrow>
         let events' =
               (case get_event d (r_event_id registration) of
                  None \<Rightarrow> events d
                | Some event \<Rightarrow>
                    if e_current_registrations event > 0
                    then update_event
                           (event\<lparr> e_current_registrations := e_current_registrations event - 1 \<rparr>)
                           (events d)
                    else events d);
             registration' = registration\<lparr> r_status := ''cancelled'' \<rparr>
         in (Inr ''Registration cancelled successfully'',
             d\<lparr> events := events',
                registrations := update_registration registration' (registrations d) \<rparr>))"

text \<open>Observations the properties are stated with.\<close>

definition live_registrations :: "db \<Rightarrow> int \<Rightarrow> Registration list" where
  "live_registrations d eid =
     filter (\<lambda>r. r_event_id r = eid \<and> r_status r \<noteq> ''cancelled'') (registrations d)"

definition counter :: "db \<Rightarrow> int \<Rightarrow> int option" where
  "counter d eid = map_option e_current_registrations (get_event d eid)"


section \<open>Attendance endpoint (main.py)\<close>

text \<open>
  The request body of \<open>mark_attendance\<close>; the schema admits the two actions
  \<open>check_in\<close> and \<open>check_out\<close> only.
\<close>

record AttendanceCreate =
  ac_registration_id :: int
  ac_action :: string

definition timedelta_minutes :: "int \<Rightarrow> int" where
  "timedelta_minutes m = 60 * m"

text \<open>
  \<open>Attendance(registration_id=...)\<close>: both timestamps NULL, and the column default
  \<open>'absent'\<close> for the status unless the handler assigns one before the commit.
\<close>

definition new_attendance :: "db \<Rightarrow> int \<Rightarrow> Attendance" where
  "new_attendance d rid =
     \<lparr> a_id = next_id (map a_id (attendance d)), a_registration_id = rid,
       a_check_in_time = None, a_check_out_time = None, a_status = ''absent'' \<rparr>"

text \<open>
  The table's constraint \<open>check_out_time IS NULL OR check_out_time >= check_in_time\<close>; a
  comparison with NULL is not false, so only two timestamps in the wrong order violate it.
\<close>

definition check_checkout_after_checkin :: "Attendance \<Rightarrow> bool" where
  "check_checkout_after_checkin a =
     (case (a_check_in_time a, a_check_out_time a) of
        (Some i, Some out) \<Rightarrow> out \<ge> i
      | _ \<Rightarrow> True)"

text \<open>
  \<open>db.commit()\<close> at the end of \<open>mark_attendance\<close>: \<open>pending\<close> is the attendance table
  with the row the session may have added, \<open>attendance_record\<close> the object as the handler
  left it.
\<close>

definition commit_attendance :: "Attendance \<Rightarrow> Attendance list \<Rightarrow> db \<Rightarrow> Attendance response" where
  "commit_attendance attendance_record pending d =
     (if check_checkout_after_checkin attendance_record
      then (Inr attendance_record,
            d\<lparr> attendance := update_attendance attendance_record pending \<rparr>)
      else (Inl (IntegrityError ''check_checkout_after_checkin''), d))"

definition mark_attendance :: "AttendanceCreate \<Rightarrow> datetime \<Rightarrow> db \<Rightarrow> Attendance response" where
  "mark_attendance attendance_in current_time d =
    (case get_registration d (ac_registration_id attendance_in) of
       None \<Rightarrow> (Inl (HTTPException 404 ''Registration not found''), d)
     | Some registration \<Rightarrow>
       if r_status registration \<noteq> ''registered''
       then (Inl (HTTPException 400 ''Student is not registered for this event''), d)
       else
         let (attendance_record, pending) =
               (case find (\<lambda>a. a_registration_id a = ac_registration_id attendance_in)
                          (attendance d) of
                  Some a \<Rightarrow> (a, attendance d)
                | None \<Rightarrow>
                    (new_attendance d (ac_registration_id attendance_in),
                     attendance d @ [new_attendance d (ac_registration_id attendance_in)]))
         in
         if ac_action attendance_in = ''check_in'' then
           (if a_check_in_time attendance_record \<noteq> None
            then (Inl (HTTPException 400 ''Student already checked in''), d)
            else
              let checked_in = attendance_record\<lparr> a_check_in_time := Some current_time,
                                                  a_status := ''present'' \<rparr>;
                  classified =
                    (case get_event d (r_event_id registration) of
                       Some event \<Rightarrow>
                         if current_time > e_start_time event + timedelta_minutes 15
                         then checked_in\<lparr> a_status := ''late'' \<rparr>
                         else checked_in
                     | None \<Rightarrow> checked_in)
              in commit_attendance classified pending d)
         else if ac_action attendance_in = ''check_out'' then
           (if a_check_in_time attendance_record = None
            then (Inl (HTTPException 400 ''Student must check in before checking out''), d)
            else if a_check_out_time attendance_record \<noteq> None
            then (Inl (HTTPException 400 ''Student already checked out''), d)
            else commit_attendance
                   (attendance_record\<lparr> a_check_out_time := Some current_time \<rparr>) pending d)
         else commit_attendance attendance_record pending d)"

definition get_attendance :: "db \<Rightarrow> int \<Rightarrow> Attendance option" where
  "get_attendance d rid = find (\<lambda>a. a_registration_id a = rid) (attendance d)"


text \<open>The record the handler works on, and the table the session holds.\<close>

definition attendance_record :: "db \<Rightarrow> int \<Rightarrow> Attendance" where
  "attendance_record d rid =
     (case get_attendance d rid of Some a \<Rightarrow> a | None \<Rightarrow> new_attendance d rid)"

definition pending :: "db \<Rightarrow> int \<Rightarrow> Attendance list" where
  "pending d rid =
     (case get_attendance d rid of Some a \<Rightarrow> attendance d
      | None \<Rightarrow> attendance d @ [new_attendance d rid])"


section \<open>Feedback endpoint (main.py, schemas.py)\<close>

record FeedbackCreate =
  fc_registration_id :: int
  fc_rating :: int
  fc_comment :: "string option"

text \<open>The validator of \<open>FeedbackBase.rating\<close>.\<close>

definition rating_must_be_valid :: "int \<Rightarrow> error + int" where
  "rating_must_be_valid v =
     (if v < 1 \<or> v > 5 then Inl (ValueError ''Rating must be between 1 and 5'') else Inr v)"

text \<open>Building the request body runs the validator.\<close>

definition parse_FeedbackCreate :: "int \<Rightarrow> int \<Rightarrow> string option \<Rightarrow> error + FeedbackCreate" where
  "parse_FeedbackCreate registration_id rating comment =
     (case rating_must_be_valid rating of
        Inl e \<Rightarrow> Inl e
      | Inr v \<Rightarrow> Inr \<lparr> fc_registration_id = registration_id, fc_rating = v, fc_comment = comment \<rparr>)"

text \<open>
  The handler. Its commit inserts the row under the table's constraint
  \<open>rating >= 1 AND rating <= 5\<close>; \<open>now\<close> is the server default of \<open>submitted_at\<close>.
\<close>

definition submit_feedback :: "FeedbackCreate \<Rightarrow> datetime \<Rightarrow> db \<Rightarrow> Feedback response" where
  "submit_feedback feedback_in now d =
    (case get_registration d (fc_registration_id feedback_in) of
       None \<Rightarrow> (Inl (HTTPException 404 ''Registration not found''), d)
     | Some registration \<Rightarrow>
      (case find (\<lambda>a. a_registration_id a = fc_registration_id feedback_in \<and>
                       a_status a \<in> set [''present'', ''late'']) (attendance d) of
         None \<Rightarrow>
           (Inl (HTTPException 400
                  ''Only students who attended the event can submit feedback''), d)
       | Some att \<Rightarrow>
        (case find (\<lambda>f. f_registration_id f = fc_registration_id feedback_in) (feedback d) of
           Some existing_feedback \<Rightarrow>
             (Inl (HTTPException 400 ''Feedback already submitted for this event''), d)
         | None \<Rightarrow>
             let db_feedback =
                   \<lparr> f_id = next_id (map f_id (feedback d)),
                     f_registration_id = fc_registration_id feedback_in,
                     f_rating = fc_rating feedback_in,
                     f_comment = fc_comment feedback_in,
                     f_submitted_at = now \<rparr>
             in if f_rating db_feedback \<ge> 1 \<and> f_rating db_feedback \<le> 5
                then (Inr db_feedback, d\<lparr> feedback := feedback d @ [db_feedback] \<rparr>)
                else (Inl (IntegrityError ''check_rating_range''), d))))"

text \<open>The POST request: the body is parsed and validated, then handed to the handler.\<close>

definition post_feedback :: "int \<Rightarrow> int \<Rightarrow> string option \<Rightarrow> datetime \<Rightarrow> db \<Rightarrow> Feedback response" where
  "post_feedback registration_id rating comment now d =
     (case parse_FeedbackCreate registration_id rating comment of
        Inl e \<Rightarrow> (Inl e, d)
      | Inr feedback_in \<Rightarrow> submit_feedback feedback_in now d)"


section \<open>Reports (reports.py)\<close>

text \<open>
  The reports are SQL text run by SQLite (database.py). The embedding gives each SQL
  construct the query uses its meaning on lists of rows: \<open>LEFT JOIN\<close> keeps a row without
  a partner once, paired with NULL (\<open>None\<close>); \<open>GROUP BY\<close> collects the rows that agree on
  the grouping columns; \<open>ORDER BY\<close> is a sort on the ordering columns (SQL leaves the
  order of rows with equal columns open; the sort here keeps them as they were);
  \<open>LIMIT\<close> with a negative number is no limit.
\<close>

definition left_join :: "'a list \<Rightarrow> ('a \<Rightarrow> 'b \<Rightarrow> bool) \<Rightarrow> 'b list \<Rightarrow> ('a \<times> 'b option) list" where
  "left_join xs on ys =
     concat (map (\<lambda>x. case filter (on x) ys of
                          [] \<Rightarrow> [(x, None)]
                        | y # ys' \<Rightarrow> map (\<lambda>m. (x, Some m)) (y # ys')) xs)"

definition group_by :: "('a \<Rightarrow> 'k) \<Rightarrow> 'a list \<Rightarrow> ('k \<times> 'a list) list" where
  "group_by key rows = map (\<lambda>k. (k, filter (\<lambda>r. key r = k) rows)) (remdups (map key rows))"

definition sql_count :: "('a \<Rightarrow> bool) \<Rightarrow> 'a list \<Rightarrow> int" where
  "sql_count P rows = int (length (filter P rows))"

definition sql_limit :: "int \<Rightarrow> 'a list \<Rightarrow> 'a list" where
  "sql_limit n rows = (if n < 0 then rows else take (nat n) rows)"

text \<open>
  SQLite's \<open>/\<close> on a REAL operand: NULL when the divisor is zero. The quotient and
  \<open>ROUND(x, 2)\<close> are taken over the rationals; SQLite computes both in IEEE doubles.
\<close>

definition sql_div :: "rat \<Rightarrow> rat \<Rightarrow> rat option" where
  "sql_div x y = (if y = 0 then None else Some (x / y))"

definition sql_round2 :: "rat option \<Rightarrow> rat option" where
  "sql_round2 v =
     (case v of
        None \<Rightarrow> None
      | Some x \<Rightarrow>
          Some (if x \<ge> 0 then of_int \<lfloor>x * 100 + 1 / 2\<rfloor> / 100
                else - (of_int \<lfloor>- x * 100 + 1 / 2\<rfloor> / 100)))"

text \<open>
  \<open>{college_filter}\<close>: the condition on \<open>e.college_id\<close> is part of the query only when
  the Python value \<open>college_id\<close> is true, that is neither \<open>None\<close> nor 0.
\<close>

definition college_filter :: "int option \<Rightarrow> Event \<Rightarrow> bool" where
  "college_filter college_id e =
     (case college_id of
        None \<Rightarrow> True
      | Some c \<Rightarrow> if c \<noteq> 0 then e_college_id e = c else True)"

type_synonym event_columns = "int \<times> string \<times> string \<times> datetime \<times> int \<times> int"

text \<open>The columns of the two \<open>GROUP BY\<close> clauses.\<close>

definition event_columns :: "Event \<Rightarrow> event_columns" where
  "event_columns e =
     (e_id e, e_title e, e_event_type e, e_start_time e, e_max_capacity e,
      e_current_registrations e)"

record popularity_row =
  p_id :: int
  p_title :: string
  p_event_type :: string
  p_start_time :: datetime
  p_max_capacity :: int
  p_current_registrations :: int
  p_total_registrations :: int
  p_registration_percentage :: "rat option"

definition popularity_select :: "event_columns \<times> (Event \<times> Registration option) list \<Rightarrow> popularity_row" where
  "popularity_select g =
     (case g of ((eid, title, event_type, start_time, max_capacity, current_registrations), rows) \<Rightarrow>
        \<lparr> p_id = eid, p_title = title, p_event_type = event_type, p_start_time = start_time,
          p_max_capacity = max_capacity, p_current_registrations = current_registrations,
          p_total_registrations = sql_count (\<lambda>(e, r). r \<noteq> None) rows,
          p_registration_percentage =
            sql_round2 (sql_div (of_int current_registrations * 100) (of_int max_capacity)) \<rparr>)"

definition get_event_popularity_report :: "int option \<Rightarrow> int \<Rightarrow> db \<Rightarrow> popularity_row list" where
  "get_event_popularity_report college_id limit d =
     (let joined = left_join (events d) (\<lambda>e r. e_id e = r_event_id r) (registrations d);
          selected = filter (\<lambda>(e, r). e_status e = ''active'' \<and> college_filter college_id e) joined;
          groups = group_by (\<lambda>(e, r). event_columns e) selected;
          result = map popularity_select groups
      in sql_limit limit
           (sort_key (\<lambda>row. (- p_total_registrations row, - p_current_registrations row)) result))"

record attendance_row =
  t_event_id :: int
  t_title :: string
  t_event_type :: string
  t_start_time :: datetime
  t_max_capacity :: int
  t_current_registrations :: int
  t_total_attendance_records :: int
  t_present_count :: int
  t_late_count :: int
  t_absent_count :: int
  t_attendance_percentage :: "rat option"

definition status_is :: "string \<Rightarrow> (Event \<times> Registration option) \<times> Attendance option \<Rightarrow> bool" where
  "status_is st row = (case snd row of None \<Rightarrow> False | Some a \<Rightarrow> a_status a = st)"

definition attendance_select ::
  "event_columns \<times> ((Event \<times> Registration option) \<times> Attendance option) list \<Rightarrow> attendance_row" where
  "attendance_select g =
     (case g of ((eid, title, event_type, start_time, max_capacity, current_registrations), rows) \<Rightarrow>
        \<lparr> t_event_id = eid, t_title = title, t_event_type = event_type,
          t_start_time = start_time, t_max_capacity = max_capacity,
          t_current_registrations = current_registrations,
          t_total_attendance_records = sql_count (\<lambda>row. snd row \<noteq> None) rows,
          t_present_count = sql_count (status_is ''present'') rows,
          t_late_count = sql_count (status_is ''late'') rows,
          t_absent_count = sql_count (status_is ''absent'') rows,
          t_attendance_percentage =
            sql_round2
              (sql_div
                 (of_int (sql_count (status_is ''present'') rows +
                          sql_count (status_is ''late'') rows) * 100)
                 (of_int current_registrations)) \<rparr>)"

text \<open>\<open>ORDER BY attendance_percentage DESC\<close>: SQLite puts NULL after every number.\<close>

definition percentage_desc :: "rat option \<Rightarrow> int \<times> rat" where
  "percentage_desc v = (case v of None \<Rightarrow> (1, 0) | Some x \<Rightarrow> (0, - x))"

definition get_attendance_summary_report :: "int option \<Rightarrow> db \<Rightarrow> attendance_row list" where
  "get_attendance_summary_report college_id d =
     (let joined = left_join
                     (left_join (events d) (\<lambda>e r. e_id e = r_event_id r) (registrations d))
                     (\<lambda>(e, r) a. case r of None \<Rightarrow> False
                                          | Some r' \<Rightarrow> r_id r' = a_registration_id a)
                     (attendance d);
          selected = filter (\<lambda>((e, r), a). e_status e \<in> set [''active'', ''completed''] \<and>
                                           college_filter college_id e) joined;
          groups = group_by (\<lambda>((e, r), a). event_columns e) selected;
          result = map attendance_select groups
      in sort_key (\<lambda>row. percentage_desc (t_attendance_percentage row)) result)"


text \<open>
  What the popularity report is measured against: the order of its \<open>ORDER BY\<close> clause,
  the registrations of an event (of any status), the groups the query forms and the
  joined rows one event contributes.
\<close>

definition popularity_order :: "popularity_row \<Rightarrow> popularity_row \<Rightarrow> bool" where
  "popularity_order a b \<longleftrightarrow>
     p_total_registrations a > p_total_registrations b \<or>
     (p_total_registrations a = p_total_registrations b \<and>
      p_current_registrations a \<ge> p_current_registrations b)"

definition registrations_of :: "db \<Rightarrow> int \<Rightarrow> Registration list" where
  "registrations_of d eid = filter (\<lambda>r. r_event_id r = eid) (registrations d)"

definition popularity_groups ::
  "int option \<Rightarrow> db \<Rightarrow> (event_columns \<times> (Event \<times> Registration option) list) list" where
  "popularity_groups college_id d =
     group_by (\<lambda>(e, r). event_columns e)
       (filter (\<lambda>(e, r). e_status e = ''active'' \<and> college_filter college_id e)
          (left_join (events d) (\<lambda>e r. e_id e = r_event_id r) (registrations d)))"

definition joined_rows :: "db \<Rightarrow> Event \<Rightarrow> (Event \<times> Registration option) list" where
  "joined_rows d e =
     (case filter (\<lambda>r. e_id e = r_event_id r) (registrations d) of
        [] \<Rightarrow> [(e, None)]
      | y # ys' \<Rightarrow> map (\<lambda>m. (e, Some m)) (y # ys'))"


section \<open>Example states\<close>

text \<open>
  A small campus: three students; a talk with ten seats and nobody registered, a gala
  that was cancelled, and a lab whose single seat is taken.
\<close>

definition campus :: db where
  "campus =
     \<lparr> students =
         [\<lparr> s_id = 1, s_college_id = 1, s_student_id = ''A-1'', s_name = ''Ann'', s_email = ''ann@uni'' \<rparr>,
          \<lparr> s_id = 2, s_college_id = 1, s_student_id = ''A-2'', s_name = ''Bob'', s_email = ''bob@uni'' \<rparr>,
          \<lparr> s_id = 3, s_college_id = 1, s_student_id = ''A-3'', s_name = ''Cyd'', s_email = ''cyd@uni'' \<rparr>],
       events =
         [\<lparr> e_id = 1, e_college_id = 1, e_title = ''Talk'', e_event_type = ''seminar'',
            e_start_time = 1000, e_end_time = 5000, e_max_capacity = 10,
            e_current_registrations = 0, e_status = ''active'' \<rparr>,
          \<lparr> e_id = 2, e_college_id = 1, e_title = ''Gala'', e_event_type = ''social'',
            e_start_time = 1000, e_end_time = 5000, e_max_capacity = 5,
            e_current_registrations = 0, e_status = ''cancelled'' \<rparr>,
          \<lparr> e_id = 3, e_college_id = 1, e_title = ''Lab'', e_event_type = ''workshop'',
            e_start_time = 1000, e_end_time = 5000, e_max_capacity = 1,
            e_current_registrations = 1, e_status = ''active'' \<rparr>],
       registrations =
         [\<lparr> r_id = 1, r_student_id = 3, r_event_id = 3, r_registered_at = 0,
            r_status = ''registered'' \<rparr>],
       attendance = [],
       feedback = [] \<rparr>"

text \<open>Ann and then Bob register for the talk; Ann's registration is cancelled, twice.\<close>

definition ann_registered :: db where
  "ann_registered = snd (register_student \<lparr> rc_student_id = 1, rc_event_id = 1 \<rparr> 0 campus)"

definition both_registered :: db where
  "both_registered =
     snd (register_student \<lparr> rc_student_id = 2, rc_event_id = 1 \<rparr> 0 ann_registered)"

definition ann_cancelled :: db where
  "ann_cancelled = snd (cancel_registration 2 both_registered)"

definition ann_cancelled_twice :: db where
  "ann_cancelled_twice = snd (cancel_registration 2 ann_cancelled)"


text \<open>
  The talk starts at 1000, so its grace window ends at 1900. Ann checks in at 1500 and
  out at 3000. In \<open>cyd_absent\<close> Cyd's registration for the lab has an attendance
  record that was never checked in.
\<close>

definition ann_checked_in :: db where
  "ann_checked_in =
     snd (mark_attendance \<lparr> ac_registration_id = 2, ac_action = ''check_in'' \<rparr> 1500
            ann_registered)"

definition ann_checked_out :: db where
  "ann_checked_out =
     snd (mark_attendance \<lparr> ac_registration_id = 2, ac_action = ''check_out'' \<rparr> 3000
            ann_checked_in)"

definition cyd_absent :: db where
  "cyd_absent =
     campus\<lparr> attendance :=
       [\<lparr> a_id = 1, a_registration_id = 1, a_check_in_time = None,
          a_check_out_time = None, a_status = ''absent'' \<rparr>] \<rparr>"

definition ann_gave_feedback :: db where
  "ann_gave_feedback = snd (post_feedback 2 5 (Some ''Great talk'') 6000 ann_checked_out)"

text \<open>
  A fair of one college with three active events: chess with 5 of 10 seats taken, robots
  with 10 of 10, poetry with 0 of 5; one registration row per seat taken.
\<close>

definition student_no :: "int \<Rightarrow> Student" where
  "student_no i =
     \<lparr> s_id = i, s_college_id = 1, s_student_id = replicate (nat i) CHR ''I'',
       s_name = ''Student'', s_email = ''student@uni'' \<rparr>"

definition registered_for :: "int \<Rightarrow> int \<Rightarrow> Registration" where
  "registered_for eid i =
     \<lparr> r_id = i, r_student_id = i, r_event_id = eid, r_registered_at = 0,
       r_status = ''registered'' \<rparr>"

definition fair :: db where
  "fair =
     \<lparr> students = map student_no [1, 2, 3, 4, 5, 6, 7, 8, 9, 10, 11, 12, 13, 14, 15],
       events =
         [\<lparr> e_id = 1, e_college_id = 1, e_title = ''Chess'', e_event_type = ''game'',
            e_start_time = 1000, e_end_time = 5000, e_max_capacity = 10,
            e_current_registrations = 5, e_status = ''active'' \<rparr>,
          \<lparr> e_id = 2, e_college_id = 1, e_title = ''Robots'', e_event_type = ''workshop'',
            e_start_time = 1000, e_end_time = 5000, e_max_capacity = 10,
            e_current_registrations = 10, e_status = ''active'' \<rparr>,
          \<lparr> e_id = 3, e_college_id = 1, e_title = ''Poetry'', e_event_type = ''reading'',
            e_start_time = 1000, e_end_time = 5000, e_max_capacity = 5,
            e_current_registrations = 0, e_status = ''active'' \<rparr>],
       registrations =
         map (registered_for 1) [1, 2, 3, 4, 5] @
         map (registered_for 2) [6, 7, 8, 9, 10, 11, 12, 13, 14, 15],
       attendance = [],
       feedback = [] \<rparr>"

section \<open>Lookups after an update\<close>

lemma find_update_by_key:
  assumes "key v = k'"
  shows "find (\<lambda>x. key x = k) (map (\<lambda>x. if key x = k' then v else x) xs)
       = (if k = k' then (if find (\<lambda>x. key x = k) xs = None then None else Some v)
          else find (\<lambda>x. key x = k) xs)"
  using assms by (induction xs) auto

lemma find_key_SomeD: "find (\<lambda>x. key x = k) xs = Some v \<Longrightarrow> key v = k \<and> v \<in> set xs"
  by (induction xs) (auto split: if_splits)

lemma find_snoc:
  "find P (xs @ [x]) =
     (case find P xs of Some y \<Rightarrow> Some y | None \<Rightarrow> if P x then Some x else None)"
  by (induction xs) auto

lemma get_event_update_event:
  "get_event (d\<lparr>events := update_event ev (events d), registrations := rs\<rparr>) k
     = (if k = e_id ev then (if get_event d k = None then None else Some ev) else get_event d k)"
  unfolding get_event_def update_event_def
  using find_update_by_key[of e_id ev "e_id ev" k "events d"] by simp

lemma get_event_SomeD: "get_event d k = Some ev \<Longrightarrow> e_id ev = k"
  unfolding get_event_def by (drule find_key_SomeD) simp

lemma get_registration_SomeD:
  "get_registration d k = Some rg \<Longrightarrow> r_id rg = k \<and> rg \<in> set (registrations d)"
  unfolding get_registration_def by (drule find_key_SomeD) simp

lemma get_registration_update:
  "get_registration (d\<lparr>events := es, registrations := update_registration rg (registrations d)\<rparr>) k
     = (if k = r_id rg then (if get_registration d k = None then None else Some rg)
        else get_registration d k)"
  unfolding get_registration_def update_registration_def
  using find_update_by_key[of r_id rg "r_id rg" k "registrations d"] by simp

lemma next_id_above: "k \<in> set ids \<Longrightarrow> k < next_id ids"
  unfolding next_id_def by (induction ids) auto

lemmas example_states =
  campus_def ann_registered_def both_registered_def ann_cancelled_def ann_cancelled_twice_def
  ann_checked_in_def ann_checked_out_def cyd_absent_def ann_gave_feedback_def

lemmas attendance_defs =
  mark_attendance_def commit_attendance_def check_checkout_after_checkin_def
  new_attendance_def update_attendance_def timedelta_minutes_def get_attendance_def

lemmas feedback_defs =
  post_feedback_def parse_FeedbackCreate_def rating_must_be_valid_def submit_feedback_def

lemmas registration_defs =
  register_student_def cancel_registration_def get_student_def get_event_def
  get_registration_def update_event_def update_registration_def next_id_def counter_def
  live_registrations_def Let_def


section \<open>Cancelling a registration\<close>

lemma cancel_registration_found:
  assumes "get_registration d rid = Some reg"
  shows "cancel_registration rid d =
     (Inr ''Registration cancelled successfully'',
      d\<lparr> events :=
           (case get_event d (r_event_id reg) of
              None \<Rightarrow> events d
            | Some event \<Rightarrow>
                if e_current_registrations event > 0
                then update_event
                       (event\<lparr> e_current_registrations := e_current_registrations event - 1 \<rparr>)
                       (events d)
                else events d),
         registrations := update_registration (reg\<lparr> r_status := ''cancelled'' \<rparr>) (registrations d) \<rparr>)"
  using assms by (simp add: cancel_registration_def Let_def)

lemma cancel_registration_get_registration:
  assumes "get_registration d rid = Some reg"
  shows "get_registration (snd (cancel_registration rid d)) rid =
           Some (reg\<lparr>r_status := ''cancelled''\<rparr>)"
  using assms get_registration_SomeD[OF assms]
  by (simp add: cancel_registration_found get_registration_update)

lemma cancel_registration_get_event:
  assumes "get_registration d rid = Some reg" and "get_event d (r_event_id reg) = Some ev"
  shows "get_event (snd (cancel_registration rid d)) (r_event_id reg) =
           Some (if e_current_registrations ev > 0
                 then ev\<lparr>e_current_registrations := e_current_registrations ev - 1\<rparr> else ev)"
  using assms get_event_SomeD[OF assms(2)]
  by (simp add: cancel_registration_found get_event_update_event)
     (simp add: get_event_def)

text \<open>
  C10. \<open>cancel_registration\<close> succeeds for every registration it finds, whatever status
  the registration has (also \<open>cancelled\<close> or \<open>attended\<close>): the status becomes
  \<open>cancelled\<close>, and the counter of the owning event goes down by one whenever it is
  positive. A second call on the same registration succeeds again and takes one more
  off the counter.
\<close>

theorem cancel_registration_ignores_status:
  assumes "get_registration d rid = Some reg"
  shows "fst (cancel_registration rid d) = Inr ''Registration cancelled successfully'' \<and>
         get_registration (snd (cancel_registration rid d)) rid =
            Some (reg\<lparr>r_status := ''cancelled''\<rparr>) \<and>
         (\<forall>ev. get_event d (r_event_id reg) = Some ev \<longrightarrow>
            counter (snd (cancel_registration rid d)) (r_event_id reg) =
              Some (if e_current_registrations ev > 0 then e_current_registrations ev - 1
                    else e_current_registrations ev)) \<and>
         fst (cancel_registration rid (snd (cancel_registration rid d))) =
            Inr ''Registration cancelled successfully'' \<and>
         (\<forall>ev. get_event d (r_event_id reg) = Some ev \<longrightarrow>
            counter (snd (cancel_registration rid (snd (cancel_registration rid d))))
                    (r_event_id reg) =
              Some (if e_current_registrations ev > 1 then e_current_registrations ev - 2
                    else if e_current_registrations ev > 0 then 0
                    else e_current_registrations ev))"
proof -
  let ?d1 = "snd (cancel_registration rid d)"
  let ?reg1 = "reg\<lparr>r_status := ''cancelled''\<rparr>"
  have r1: "get_registration ?d1 rid = Some ?reg1"
    using assms by (rule cancel_registration_get_registration)
  have s1: "fst (cancel_registration rid d) = Inr ''Registration cancelled successfully''"
    using assms by (simp add: cancel_registration_found)
  have s2: "fst (cancel_registration rid ?d1) = Inr ''Registration cancelled successfully''"
    using r1 by (simp add: cancel_registration_found)
  have c1: "counter ?d1 (r_event_id reg) =
              Some (if e_current_registrations ev > 0 then e_current_registrations ev - 1
                    else e_current_registrations ev)"
    if "get_event d (r_event_id reg) = Some ev" for ev
    using cancel_registration_get_event[OF assms that] by (simp add: counter_def)
  have c2: "counter (snd (cancel_registration rid ?d1)) (r_event_id reg) =
              Some (if e_current_registrations ev > 1 then e_current_registrations ev - 2
                    else if e_current_registrations ev > 0 then 0
                    else e_current_registrations ev)"
    if h: "get_event d (r_event_id reg) = Some ev" for ev
  proof -
    let ?ev1 = "if e_current_registrations ev > 0
                then ev\<lparr>e_current_registrations := e_current_registrations ev - 1\<rparr> else ev"
    have e1: "get_event ?d1 (r_event_id ?reg1) = Some ?ev1"
      using cancel_registration_get_event[OF assms h] by simp
    show ?thesis
      using cancel_registration_get_event[OF r1 e1] by (simp add: counter_def)
  qed
  show ?thesis using r1 s1 s2 c1 c2 by blast
qed

text \<open>
  At \<open>both_registered\<close> the talk's counter is 2 and Ann's registration 2 is live: two
  cancellations of it bring the counter to 0. At \<open>ann_cancelled\<close> the registration is
  already cancelled and the call succeeds all the same.
\<close>

theorem cancel_registration_ignores_status_witness:
  "get_registration both_registered 2 =
     Some \<lparr>r_id = 2, r_student_id = 1, r_event_id = 1, r_registered_at = 0,
           r_status = ''registered''\<rparr> \<and>
   counter both_registered 1 = Some 2 \<and>
   counter (snd (cancel_registration 2 both_registered)) 1 = Some 1 \<and>
   counter (snd (cancel_registration 2 (snd (cancel_registration 2 both_registered)))) 1 = Some 0 \<and>
   get_registration ann_cancelled 2 =
     Some \<lparr>r_id = 2, r_student_id = 1, r_event_id = 1, r_registered_at = 0,
           r_status = ''cancelled''\<rparr> \<and>
   fst (cancel_registration 2 ann_cancelled) = Inr ''Registration cancelled successfully''"
proof -
  have g: "get_registration both_registered 2 =
     Some \<lparr>r_id = 2, r_student_id = 1, r_event_id = 1, r_registered_at = 0,
           r_status = ''registered''\<rparr>"
    by (simp add: example_states registration_defs)
  have e: "get_event both_registered 1 =
     Some \<lparr> e_id = 1, e_college_id = 1, e_title = ''Talk'', e_event_type = ''seminar'',
            e_start_time = 1000, e_end_time = 5000, e_max_capacity = 10,
            e_current_registrations = 2, e_status = ''active'' \<rparr>"
    by (simp add: example_states registration_defs)
  have g': "get_registration ann_cancelled 2 =
     Some \<lparr>r_id = 2, r_student_id = 1, r_event_id = 1, r_registered_at = 0,
           r_status = ''cancelled''\<rparr>"
    by (simp add: example_states registration_defs)
  show ?thesis
    using g e g' cancel_registration_ignores_status[OF g] cancel_registration_ignores_status[OF g']
    by (simp add: counter_def)
qed


section \<open>The counter against the live registrations\<close>

text \<open>
  C1. The counter of an event is meant to be the number of its registrations that are
  not cancelled. Four successful operations from \<open>campus\<close> (Ann registers for the talk,
  Bob registers for the talk, Ann's registration is cancelled, and cancelled once more)
  end with the talk's counter at 0 while Bob's registration is live: the second
  cancellation of the same registration took a second seat off the counter.
\<close>

theorem double_cancel_breaks_counter:
  "fst (register_student \<lparr> rc_student_id = 1, rc_event_id = 1 \<rparr> 0 campus) =
     Inr \<lparr>r_id = 2, r_student_id = 1, r_event_id = 1, r_registered_at = 0,
          r_status = ''registered''\<rparr> \<and>
   fst (register_student \<lparr> rc_student_id = 2, rc_event_id = 1 \<rparr> 0 ann_registered) =
     Inr \<lparr>r_id = 3, r_student_id = 2, r_event_id = 1, r_registered_at = 0,
          r_status = ''registered''\<rparr> \<and>
   fst (cancel_registration 2 both_registered) = Inr ''Registration cancelled successfully'' \<and>
   fst (cancel_registration 2 ann_cancelled) = Inr ''Registration cancelled successfully'' \<and>
   counter ann_cancelled_twice 1 = Some 0 \<and>
   live_registrations ann_cancelled_twice 1 =
     [\<lparr>r_id = 3, r_student_id = 2, r_event_id = 1, r_registered_at = 0,
       r_status = ''registered''\<rparr>]"
  by (simp add: example_states registration_defs)


section \<open>Registering\<close>

lemma counter_after_update:
  assumes "get_event d eid = Some event"
  shows "counter (d\<lparr>registrations := rs,
                    events := update_event (event\<lparr>e_current_registrations := c\<rparr>) (events d)\<rparr>) eid
         = Some c"
  using assms get_event_SomeD[OF assms]
        find_update_by_key[of e_id "event\<lparr>e_current_registrations := c\<rparr>" eid eid "events d"]
  by (simp add: counter_def get_event_def update_event_def)


lemma register_student_Inr:
  assumes "fst (register_student registration now d) = Inr reg"
  shows "\<exists>student event.
           get_student d (rc_student_id registration) = Some student \<and>
           get_event d (rc_event_id registration) = Some event \<and>
           e_status event = ''active'' \<and> now < e_start_time event \<and>
           find (\<lambda>r. r_student_id r = rc_student_id registration \<and>
                      r_event_id r = rc_event_id registration) (registrations d) = None \<and>
           e_current_registrations event < e_max_capacity event \<and>
           reg = \<lparr> r_id = next_id (map r_id (registrations d)),
                   r_student_id = rc_student_id registration,
                   r_event_id = rc_event_id registration,
                   r_registered_at = now, r_status = ''registered'' \<rparr> \<and>
           snd (register_student registration now d) =
             d\<lparr> registrations := registrations d @ [reg],
                events := update_event
                  (event\<lparr> e_current_registrations := e_current_registrations event + 1 \<rparr>)
                  (events d) \<rparr>"
  using assms
  by (auto simp: register_student_def Let_def split: option.splits if_splits)

lemma find_SomeD: "find P xs = Some x \<Longrightarrow> P x \<and> x \<in> set xs"
  by (auto simp: find_Some_iff)

lemma register_student_duplicate_iff:
  "fst (register_student registration now d) =
       Inl (HTTPException 400 ''Student already registered for this event'') \<longleftrightarrow>
     get_student d (rc_student_id registration) \<noteq> None \<and>
     (\<exists>event. get_event d (rc_event_id registration) = Some event \<and>
              e_status event = ''active'' \<and> now < e_start_time event) \<and>
     (\<exists>r \<in> set (registrations d).
         r_student_id r = rc_student_id registration \<and> r_event_id r = rc_event_id registration)"
  by (auto simp: register_student_def Let_def find_None_iff
           split: option.splits if_splits dest: find_SomeD)

lemma register_student_Inl:
  "fst (register_student registration now d) = Inl e \<Longrightarrow>
   snd (register_student registration now d) = d"
  by (auto simp: register_student_def Let_def split: option.splits if_splits)

lemma update_registration_fresh:
  assumes "\<forall>x\<in>set xs. r_id x \<noteq> r_id rg"
  shows "update_registration rg xs = xs"
  using assms unfolding update_registration_def by (induction xs) auto

lemma register_then_cancel:
  assumes ok: "fst (register_student registration now d) = Inr reg"
  defines "d1 \<equiv> snd (register_student registration now d)"
  defines "d2 \<equiv> snd (cancel_registration (r_id reg) d1)"
  shows "registrations d2 = registrations d @ [reg\<lparr>r_status := ''cancelled''\<rparr>]"
    and "students d2 = students d"
    and "\<exists>event. get_event d (rc_event_id registration) = Some event \<and>
          (\<exists>event2. get_event d2 (rc_event_id registration) = Some event2 \<and>
             e_status event2 = e_status event \<and> e_start_time event2 = e_start_time event)"
proof -
  from register_student_Inr[OF ok] obtain student event where
    ev: "get_event d (rc_event_id registration) = Some event" and
    reg: "reg = \<lparr> r_id = next_id (map r_id (registrations d)),
                   r_student_id = rc_student_id registration,
                   r_event_id = rc_event_id registration,
                   r_registered_at = now, r_status = ''registered'' \<rparr>" and
    d1: "d1 = d\<lparr> registrations := registrations d @ [reg],
                events := update_event
                  (event\<lparr> e_current_registrations := e_current_registrations event + 1 \<rparr>)
                  (events d) \<rparr>"
    unfolding d1_def by blast
  have fresh: "\<forall>x\<in>set (registrations d). r_id x \<noteq> r_id reg"
  proof
    fix x assume "x \<in> set (registrations d)"
    then have "r_id x \<in> set (map r_id (registrations d))" by simp
    from next_id_above[OF this] show "r_id x \<noteq> r_id reg" by (simp add: reg)
  qed
  then have none: "find (\<lambda>r. r_id r = r_id reg) (registrations d) = None"
    by (simp add: find_None_iff)
  have g1: "get_registration d1 (r_id reg) = Some reg"
    by (simp add: get_registration_def d1 find_snoc none)
  have eid: "e_id event = rc_event_id registration" "r_event_id reg = rc_event_id registration"
    using get_event_SomeD[OF ev] by (simp_all add: reg)
  have e1: "get_event d1 (r_event_id reg) =
              Some (event\<lparr> e_current_registrations := e_current_registrations event + 1 \<rparr>)"
    using ev eid find_update_by_key[of e_id
            "event\<lparr> e_current_registrations := e_current_registrations event + 1 \<rparr>"
            "rc_event_id registration" "rc_event_id registration" "events d"]
    by (simp add: d1 get_event_def update_event_def)
  have d2: "d2 = snd (cancel_registration (r_id reg) d1)" by (simp add: d2_def)
  have r2: "registrations d2 =
              update_registration (reg\<lparr>r_status := ''cancelled''\<rparr>) (registrations d1)"
    and s2: "students d2 = students d1"
    unfolding d2 cancel_registration_found[OF g1] by simp_all
  have r1: "registrations d1 = registrations d @ [reg]" and s1: "students d1 = students d"
    by (simp_all add: d1)
  show "registrations d2 = registrations d @ [reg\<lparr>r_status := ''cancelled''\<rparr>]"
    using fresh update_registration_fresh[of "registrations d" "reg\<lparr>r_status := ''cancelled''\<rparr>"]
    by (simp add: r2 r1) (simp add: update_registration_def)
  show "students d2 = students d"
    by (simp add: s2 s1)
  show "\<exists>event. get_event d (rc_event_id registration) = Some event \<and>
          (\<exists>event2. get_event d2 (rc_event_id registration) = Some event2 \<and>
             e_status event2 = e_status event \<and> e_start_time event2 = e_start_time event)"
    using cancel_registration_get_event[OF g1 e1] ev eid by (auto simp: d2)
qed

text \<open>
  C3. \<open>register_student\<close> tests, in this order: the student exists, the event exists,
  the event is active, the event starts after \<open>now\<close>, the pair has no registration yet,
  the counter is below the capacity. Each test that fails ends the request with its own
  error, different from the other five, and leaves the database as it was; a test is
  only reached when all the tests before it passed. When all six pass, the request
  returns a new registration with status \<open>registered\<close> for the pair, which is appended
  to the table, and the event's counter is one more than before.
\<close>

theorem register_student_check_order:
  fixes registration now d
  defines "sid \<equiv> rc_student_id registration" and "eid \<equiv> rc_event_id registration"
  defines "dup \<equiv> find (\<lambda>r. r_student_id r = sid \<and> r_event_id r = eid) (registrations d)"
  shows
   "(get_student d sid = None \<longrightarrow>
       register_student registration now d = (Inl (HTTPException 404 ''Student not found''), d)) \<and>
    (get_student d sid \<noteq> None \<and> get_event d eid = None \<longrightarrow>
       register_student registration now d = (Inl (HTTPException 404 ''Event not found''), d)) \<and>
    (\<forall>event. get_student d sid \<noteq> None \<and> get_event d eid = Some event \<longrightarrow>
      (e_status event \<noteq> ''active'' \<longrightarrow>
         register_student registration now d =
           (Inl (HTTPException 400 ''Event is not active for registration''), d)) \<and>
      (e_status event = ''active'' \<and> \<not> e_start_time event > now \<longrightarrow>
         register_student registration now d =
           (Inl (HTTPException 400 ''Cannot register for past events''), d)) \<and>
      (e_status event = ''active'' \<and> e_start_time event > now \<and> dup \<noteq> None \<longrightarrow>
         register_student registration now d =
           (Inl (HTTPException 400 ''Student already registered for this event''), d)) \<and>
      (e_status event = ''active'' \<and> e_start_time event > now \<and> dup = None \<and>
       \<not> e_current_registrations event < e_max_capacity event \<longrightarrow>
         register_student registration now d =
           (Inl (HTTPException 400 ''Event is at full capacity''), d)) \<and>
      (e_status event = ''active'' \<and> e_start_time event > now \<and> dup = None \<and>
       e_current_registrations event < e_max_capacity event \<longrightarrow>
         (\<exists>reg. fst (register_student registration now d) = Inr reg \<and>
                r_status reg = ''registered'' \<and> r_student_id reg = sid \<and> r_event_id reg = eid \<and>
                registrations (snd (register_student registration now d)) = registrations d @ [reg] \<and>
                counter (snd (register_student registration now d)) eid =
                  Some (e_current_registrations event + 1)))) \<and>
    distinct [HTTPException 404 ''Student not found'', HTTPException 404 ''Event not found'',
              HTTPException 400 ''Event is not active for registration'',
              HTTPException 400 ''Cannot register for past events'',
              HTTPException 400 ''Student already registered for this event'',
              HTTPException 400 ''Event is at full capacity'']"
proof -
  show ?thesis
    unfolding sid_def eid_def dup_def
    apply (intro conjI allI impI)
           apply (auto simp: register_student_def Let_def  split: option.splits)[6]
     apply (clarsimp simp: register_student_def Let_def split: option.splits)
     apply (rule counter_after_update, assumption)
    apply simp
    done
qed


text \<open>One request at \<open>campus\<close> for each of the seven outcomes.\<close>

theorem register_student_check_order_witness:
  "register_student \<lparr>rc_student_id = 9, rc_event_id = 1\<rparr> 0 campus =
     (Inl (HTTPException 404 ''Student not found''), campus) \<and>
   register_student \<lparr>rc_student_id = 1, rc_event_id = 9\<rparr> 0 campus =
     (Inl (HTTPException 404 ''Event not found''), campus) \<and>
   register_student \<lparr>rc_student_id = 1, rc_event_id = 2\<rparr> 0 campus =
     (Inl (HTTPException 400 ''Event is not active for registration''), campus) \<and>
   register_student \<lparr>rc_student_id = 1, rc_event_id = 1\<rparr> 1000 campus =
     (Inl (HTTPException 400 ''Cannot register for past events''), campus) \<and>
   register_student \<lparr>rc_student_id = 3, rc_event_id = 3\<rparr> 0 campus =
     (Inl (HTTPException 400 ''Student already registered for this event''), campus) \<and>
   register_student \<lparr>rc_student_id = 1, rc_event_id = 3\<rparr> 0 campus =
     (Inl (HTTPException 400 ''Event is at full capacity''), campus) \<and>
   (\<exists>reg. fst (register_student \<lparr>rc_student_id = 1, rc_event_id = 1\<rparr> 0 campus) = Inr reg \<and>
          r_status reg = ''registered'' \<and>
          registrations ann_registered = registrations campus @ [reg]) \<and>
   counter campus 1 = Some 0 \<and> counter ann_registered 1 = Some 1"
proof -
  have s1: "get_student campus 1 \<noteq> None" "get_student campus 3 \<noteq> None" "get_student campus 9 = None"
    by (simp_all add: campus_def get_student_def)
  have e1: "get_event campus 1 = Some \<lparr> e_id = 1, e_college_id = 1, e_title = ''Talk'', e_event_type = ''seminar'',
            e_start_time = 1000, e_end_time = 5000, e_max_capacity = 10,
            e_current_registrations = 0, e_status = ''active'' \<rparr>"
    and e2: "get_event campus 2 = Some \<lparr> e_id = 2, e_college_id = 1, e_title = ''Gala'', e_event_type = ''social'',
            e_start_time = 1000, e_end_time = 5000, e_max_capacity = 5,
            e_current_registrations = 0, e_status = ''cancelled'' \<rparr>"
    and e3: "get_event campus 3 = Some \<lparr> e_id = 3, e_college_id = 1, e_title = ''Lab'', e_event_type = ''workshop'',
            e_start_time = 1000, e_end_time = 5000, e_max_capacity = 1,
            e_current_registrations = 1, e_status = ''active'' \<rparr>"
    and e9: "get_event campus 9 = None"
    by (simp_all add: campus_def get_event_def)
  have r: "registrations campus = [\<lparr> r_id = 1, r_student_id = 3, r_event_id = 3, r_registered_at = 0,
            r_status = ''registered'' \<rparr>]"
    by (simp add: campus_def)
  note t = register_student_check_order
  show ?thesis
    using t[of campus "\<lparr>rc_student_id = 9, rc_event_id = 1\<rparr>" 0]
          t[of campus "\<lparr>rc_student_id = 1, rc_event_id = 9\<rparr>" 0]
          t[of campus "\<lparr>rc_student_id = 1, rc_event_id = 2\<rparr>" 0]
          t[of campus "\<lparr>rc_student_id = 1, rc_event_id = 1\<rparr>" 1000]
          t[of campus "\<lparr>rc_student_id = 3, rc_event_id = 3\<rparr>" 0]
          t[of campus "\<lparr>rc_student_id = 1, rc_event_id = 3\<rparr>" 0]
          t[of campus "\<lparr>rc_student_id = 1, rc_event_id = 1\<rparr>" 0]
    by (simp add: s1 e1 e2 e3 e9 r ann_registered_def counter_def) blast
qed

text \<open>
  C4, as the code has it. A request is refused as a duplicate exactly when the student
  exists, the event exists, is active and starts after \<open>now\<close>, and the table holds a
  registration for the pair, of any status. So a second request while the first
  registration is live is refused, with the counter one above its first value and the
  database untouched; and a request after that registration was cancelled is refused as
  well, although every registration of the pair is cancelled.
\<close>

theorem register_student_duplicate_any_status:
  fixes registration now now' d
  defines "sid \<equiv> rc_student_id registration" and "eid \<equiv> rc_event_id registration"
  defines "duplicate \<equiv> HTTPException 400 ''Student already registered for this event''"
  defines "d1 \<equiv> snd (register_student registration now d)"
  shows
   "(fst (register_student registration now d) = Inl duplicate \<longleftrightarrow>
       get_student d sid \<noteq> None \<and>
       (\<exists>event. get_event d eid = Some event \<and> e_status event = ''active'' \<and>
                now < e_start_time event) \<and>
       (\<exists>r \<in> set (registrations d). r_student_id r = sid \<and> r_event_id r = eid)) \<and>
    (\<forall>reg event.
       fst (register_student registration now d) = Inr reg \<and>
       get_event d eid = Some event \<and> now' < e_start_time event \<longrightarrow>
         register_student registration now' d1 = (Inl duplicate, d1) \<and>
         counter d1 eid = Some (e_current_registrations event + 1) \<and>
         (\<forall>r \<in> set (registrations (snd (cancel_registration (r_id reg) d1))).
             r_student_id r = sid \<and> r_event_id r = eid \<longrightarrow> r_status r = ''cancelled'') \<and>
         fst (register_student registration now' (snd (cancel_registration (r_id reg) d1))) =
           Inl duplicate)"
proof (intro conjI allI impI, goal_cases)
  case 1
  show ?case
    unfolding sid_def eid_def duplicate_def by (rule register_student_duplicate_iff)
next
  case (2 reg event)
  then have ok: "fst (register_student registration now d) = Inr reg"
    and ev: "get_event d (rc_event_id registration) = Some event"
    and fut: "now' < e_start_time event"
    by (simp_all add: eid_def)
  from register_student_Inr[OF ok] ev obtain student where
    st: "get_student d (rc_student_id registration) = Some student" and
    act: "e_status event = ''active''" and
    reg: "reg = \<lparr> r_id = next_id (map r_id (registrations d)),
                   r_student_id = rc_student_id registration,
                   r_event_id = rc_event_id registration,
                   r_registered_at = now, r_status = ''registered'' \<rparr>" and
    d1: "d1 = d\<lparr> registrations := registrations d @ [reg],
                events := update_event
                  (event\<lparr> e_current_registrations := e_current_registrations event + 1 \<rparr>)
                  (events d) \<rparr>"
    unfolding d1_def by auto
  have e1: "get_event d1 (rc_event_id registration) =
              Some (event\<lparr> e_current_registrations := e_current_registrations event + 1 \<rparr>)"
    using ev get_event_SomeD[OF ev] find_update_by_key[of e_id
            "event\<lparr> e_current_registrations := e_current_registrations event + 1 \<rparr>"
            "rc_event_id registration" "rc_event_id registration" "events d"]
    by (simp add: d1 get_event_def update_event_def)
  have s1: "get_student d1 (rc_student_id registration) = Some student"
    using st by (simp add: d1 get_student_def)
  have "fst (register_student registration now' d1) = Inl duplicate"
    unfolding duplicate_def register_student_duplicate_iff
    using s1 e1 act fut by (simp add: d1 reg)
  then show ?case
    using register_student_Inl[of registration now' d1 duplicate]
    by (simp add: prod_eq_iff)
next
  case (3 reg event)
  then have ev: "get_event d (rc_event_id registration) = Some event"
    by (simp add: eid_def)
  show ?case
    unfolding d1_def eid_def using counter_after_update[OF ev] 3
    by (auto dest!: register_student_Inr simp: eid_def)
next
  case (4 reg event)
  then have ok: "fst (register_student registration now d) = Inr reg"
    by simp
  from register_student_Inr[OF ok] have
    none: "find (\<lambda>r. r_student_id r = rc_student_id registration \<and>
                      r_event_id r = rc_event_id registration) (registrations d) = None"
    by auto
  show ?case
    unfolding d1_def register_then_cancel(1)[OF ok] sid_def eid_def
    using none by (auto simp: find_None_iff)
next
  case (5 reg event)
  then have ok: "fst (register_student registration now d) = Inr reg"
    and ev: "get_event d (rc_event_id registration) = Some event"
    and fut: "now' < e_start_time event"
    by (simp_all add: eid_def)
  let ?d2 = "snd (cancel_registration (r_id reg) (snd (register_student registration now d)))"
  from register_student_Inr[OF ok] ev obtain student where
    st: "get_student d (rc_student_id registration) = Some student" and
    act: "e_status event = ''active''" and
    reg: "r_student_id reg = rc_student_id registration"
         "r_event_id reg = rc_event_id registration"
    by auto
  have s2: "get_student ?d2 (rc_student_id registration) = Some student"
    using st register_then_cancel(2)[OF ok] by (simp add: get_student_def)
  from register_then_cancel(3)[OF ok] ev obtain event2 where
    e2: "get_event ?d2 (rc_event_id registration) = Some event2"
        "e_status event2 = ''active''" "e_start_time event2 = e_start_time event"
    using act by auto
  show ?case
    unfolding duplicate_def d1_def register_student_duplicate_iff
    using s2 e2 fut reg by (simp add: register_then_cancel(1)[OF ok])
qed


text \<open>
  The claim as stated fails at \<open>ann_cancelled\<close>: no registration of Ann for the talk is
  live there, and her request is refused as a duplicate.
\<close>

theorem cancelled_registration_still_blocks:
  "fst (register_student \<lparr> rc_student_id = 1, rc_event_id = 1 \<rparr> 0 ann_cancelled) =
     Inl (HTTPException 400 ''Student already registered for this event'') \<and>
   filter (\<lambda>r. r_student_id r = 1 \<and> r_event_id r = 1 \<and> r_status r \<noteq> ''cancelled'')
          (registrations ann_cancelled) = []"
  by (simp add: example_states registration_defs)

theorem register_student_duplicate_any_status_witness:
  "fst (register_student \<lparr>rc_student_id = 3, rc_event_id = 3\<rparr> 0 campus) =
     Inl (HTTPException 400 ''Student already registered for this event'') \<and>
   fst (register_student \<lparr>rc_student_id = 1, rc_event_id = 1\<rparr> 0 campus) =
     Inr \<lparr>r_id = 2, r_student_id = 1, r_event_id = 1, r_registered_at = 0,
          r_status = ''registered''\<rparr> \<and>
   register_student \<lparr>rc_student_id = 1, rc_event_id = 1\<rparr> 5 ann_registered =
     (Inl (HTTPException 400 ''Student already registered for this event''), ann_registered) \<and>
   counter campus 1 = Some 0 \<and>
   counter ann_registered 1 = Some 1 \<and>
   fst (register_student \<lparr>rc_student_id = 1, rc_event_id = 1\<rparr> 5
          (snd (cancel_registration 2 ann_registered))) =
     Inl (HTTPException 400 ''Student already registered for this event'')"
proof -
  have s: "get_student campus 3 \<noteq> None"
    by (simp add: campus_def get_student_def)
  have e3: "get_event campus 3 = Some \<lparr> e_id = 3, e_college_id = 1, e_title = ''Lab'',
            e_event_type = ''workshop'', e_start_time = 1000, e_end_time = 5000,
            e_max_capacity = 1, e_current_registrations = 1, e_status = ''active'' \<rparr>"
    and e1: "get_event campus 1 = Some \<lparr> e_id = 1, e_college_id = 1, e_title = ''Talk'',
            e_event_type = ''seminar'', e_start_time = 1000, e_end_time = 5000,
            e_max_capacity = 10, e_current_registrations = 0, e_status = ''active'' \<rparr>"
    by (simp_all add: campus_def get_event_def)
  have r: "registrations campus = [\<lparr> r_id = 1, r_student_id = 3, r_event_id = 3,
            r_registered_at = 0, r_status = ''registered'' \<rparr>]"
    by (simp add: campus_def)
  have ok: "fst (register_student \<lparr>rc_student_id = 1, rc_event_id = 1\<rparr> 0 campus) =
     Inr \<lparr>r_id = 2, r_student_id = 1, r_event_id = 1, r_registered_at = 0,
          r_status = ''registered''\<rparr>"
    by (simp add: campus_def registration_defs)
  note t = register_student_duplicate_any_status
  show ?thesis
    using t[where d = campus and registration = "\<lparr>rc_student_id = 3, rc_event_id = 3\<rparr>"
              and now = 0 and now' = 5]
          t[where d = campus and registration = "\<lparr>rc_student_id = 1, rc_event_id = 1\<rparr>"
              and now = 0 and now' = 5]
    by (simp add: s e1 e3 r ok ann_registered_def counter_def)
qed


section \<open>Attendance\<close>

lemma find_replaced:
  assumes "P v" and "find P xs = Some a" and "key a = key v"
  shows "find P (map (\<lambda>x. if key x = key v then v else x) xs) = Some v"
  using assms by (induction xs) (auto split: if_splits)

lemma update_attendance_fresh:
  assumes "\<forall>x\<in>set xs. a_id x \<noteq> a_id v" and "a_id n = a_id v"
  shows "update_attendance v (xs @ [n]) = xs @ [v]"
  using assms unfolding update_attendance_def by (induction xs) auto


lemma mark_attendance_registered:
  assumes "get_registration d rid = Some reg" and "r_status reg = ''registered''"
  shows "mark_attendance \<lparr>ac_registration_id = rid, ac_action = act\<rparr> now d =
    (if act = ''check_in'' then
           (if a_check_in_time (attendance_record d rid) \<noteq> None
            then (Inl (HTTPException 400 ''Student already checked in''), d)
            else commit_attendance
                  (case get_event d (r_event_id reg) of
                       Some event \<Rightarrow>
                         if now > e_start_time event + timedelta_minutes 15
                         then attendance_record d rid\<lparr> a_check_in_time := Some now, a_status := ''late'' \<rparr>
                         else attendance_record d rid\<lparr> a_check_in_time := Some now, a_status := ''present'' \<rparr>
                     | None \<Rightarrow> attendance_record d rid\<lparr> a_check_in_time := Some now, a_status := ''present'' \<rparr>)
                  (pending d rid) d)
     else if act = ''check_out'' then
           (if a_check_in_time (attendance_record d rid) = None
            then (Inl (HTTPException 400 ''Student must check in before checking out''), d)
            else if a_check_out_time (attendance_record d rid) \<noteq> None
            then (Inl (HTTPException 400 ''Student already checked out''), d)
            else commit_attendance
                   (attendance_record d rid\<lparr> a_check_out_time := Some now \<rparr>) (pending d rid) d)
     else commit_attendance (attendance_record d rid) (pending d rid) d)"
  using assms
  by (auto simp: mark_attendance_def attendance_record_def pending_def get_attendance_def Let_def
           split: option.splits)

lemma pending_finds_record:
  "find (\<lambda>a. a_registration_id a = rid) (pending d rid) = Some (attendance_record d rid)"
  by (auto simp: pending_def attendance_record_def get_attendance_def find_snoc new_attendance_def
           split: option.splits)

lemma attendance_record_registration_id:
  "a_registration_id (attendance_record d rid) = rid"
  using pending_finds_record[of rid d]
  by (auto simp: find_Some_iff)

lemma get_attendance_commit:
  assumes "a_id v = a_id (attendance_record d rid)" and "a_registration_id v = rid"
  shows "get_attendance (d\<lparr>attendance := update_attendance v (pending d rid)\<rparr>) rid = Some v"
  using find_replaced[of "\<lambda>a. a_registration_id a = rid" v "pending d rid"
                         "attendance_record d rid" a_id] assms pending_finds_record[of rid d]
  by (simp add: get_attendance_def update_attendance_def)

lemma ann_registered_rows:
  "get_registration ann_registered 2 =
     Some \<lparr>r_id = 2, r_student_id = 1, r_event_id = 1, r_registered_at = 0,
           r_status = ''registered''\<rparr>"
  "get_event ann_registered 1 =
     Some \<lparr> e_id = 1, e_college_id = 1, e_title = ''Talk'', e_event_type = ''seminar'',
            e_start_time = 1000, e_end_time = 5000, e_max_capacity = 10,
            e_current_registrations = 1, e_status = ''active'' \<rparr>"
  "attendance ann_registered = []"
  by (simp_all add: example_states registration_defs)

lemma ann_checked_in_rows:
  "get_registration ann_checked_in 2 =
     Some \<lparr>r_id = 2, r_student_id = 1, r_event_id = 1, r_registered_at = 0,
           r_status = ''registered''\<rparr>"
  "attendance ann_checked_in =
     [\<lparr>a_id = 1, a_registration_id = 2, a_check_in_time = Some 1500,
       a_check_out_time = None, a_status = ''present''\<rparr>]"
  by (simp_all add: example_states registration_defs attendance_defs)

lemma ann_checked_out_rows:
  "get_registration ann_checked_out 2 =
     Some \<lparr>r_id = 2, r_student_id = 1, r_event_id = 1, r_registered_at = 0,
           r_status = ''registered''\<rparr>"
  "attendance ann_checked_out =
     [\<lparr>a_id = 1, a_registration_id = 2, a_check_in_time = Some 1500,
       a_check_out_time = Some 3000, a_status = ''present''\<rparr>]"
  by (simp_all add: example_states registration_defs attendance_defs)


text \<open>
  C5. For a registration with status \<open>registered\<close> whose attendance record, if there is
  one, has no check-in time: a check-in at \<open>now\<close> that succeeds returns and stores a
  record with \<open>check_in_time = now\<close> and with status \<open>late\<close> if \<open>now\<close> is after the
  event's start plus 15 minutes, \<open>present\<close> otherwise, the boundary included. It does
  succeed whenever the record has no check-out time either.
\<close>

theorem check_in_classifies:
  fixes rid now d
  defines "request \<equiv> mark_attendance \<lparr>ac_registration_id = rid, ac_action = ''check_in''\<rparr> now d"
  assumes reg: "get_registration d rid = Some reg" "r_status reg = ''registered''"
    and ev: "get_event d (r_event_id reg) = Some event"
    and unset: "\<forall>a. get_attendance d rid = Some a \<longrightarrow> a_check_in_time a = None"
  shows "(\<forall>rec. fst request = Inr rec \<longrightarrow>
            a_check_in_time rec = Some now \<and>
            a_status rec = (if now > e_start_time event + timedelta_minutes 15
                            then ''late'' else ''present'') \<and>
            get_attendance (snd request) rid = Some rec) \<and>
         ((\<forall>a. get_attendance d rid = Some a \<longrightarrow> a_check_out_time a = None) \<longrightarrow>
            (\<exists>rec. fst request = Inr rec))"
proof -
  let ?r0 = "attendance_record d rid"
  let ?v = "if now > e_start_time event + timedelta_minutes 15
            then ?r0\<lparr> a_check_in_time := Some now, a_status := ''late'' \<rparr>
            else ?r0\<lparr> a_check_in_time := Some now, a_status := ''present'' \<rparr>"
  have none: "a_check_in_time ?r0 = None"
    using unset by (auto simp: attendance_record_def new_attendance_def split: option.splits)
  have req: "request = commit_attendance ?v (pending d rid) d"
    unfolding request_def mark_attendance_registered[OF reg] using none ev by simp
  have key: "a_id ?v = a_id ?r0" "a_registration_id ?v = rid"
    using attendance_record_registration_id[of d rid] by simp_all
  have stored: "get_attendance (d\<lparr>attendance := update_attendance ?v (pending d rid)\<rparr>) rid = Some ?v"
    by (rule get_attendance_commit[OF key])
  have a: "a_check_in_time rec = Some now \<and>
           a_status rec = (if now > e_start_time event + timedelta_minutes 15
                            then ''late'' else ''present'') \<and>
           get_attendance (snd request) rid = Some rec"
    if "fst request = Inr rec" for rec
  proof -
    from that have c: "check_checkout_after_checkin ?v" and r: "rec = ?v"
      by (auto simp: req commit_attendance_def split: if_splits)
    have s: "snd request = d\<lparr>attendance := update_attendance ?v (pending d rid)\<rparr>"
      using c by (simp add: req commit_attendance_def)
    show ?thesis unfolding s stored r by simp
  qed
  have b: "\<exists>rec. fst request = Inr rec"
    if "\<forall>a. get_attendance d rid = Some a \<longrightarrow> a_check_out_time a = None"
  proof -
    have "a_check_out_time ?r0 = None"
      using that by (auto simp: attendance_record_def new_attendance_def split: option.splits)
    then have "check_checkout_after_checkin ?v"
      by (simp add: check_checkout_after_checkin_def)
    then show ?thesis by (simp add: req commit_attendance_def)
  qed
  show ?thesis using a b by blast
qed


text \<open>
  Ann's check-in for the talk (start 1000) at 1900, the last second of the grace window,
  and at 1901.
\<close>

theorem check_in_classifies_witness:
  "get_attendance ann_registered 2 = None \<and>
   (\<exists>rec. fst (mark_attendance \<lparr>ac_registration_id = 2, ac_action = ''check_in''\<rparr> 1900
                  ann_registered) = Inr rec \<and>
          a_check_in_time rec = Some 1900 \<and> a_status rec = ''present'') \<and>
   (\<exists>rec. fst (mark_attendance \<lparr>ac_registration_id = 2, ac_action = ''check_in''\<rparr> 1901
                  ann_registered) = Inr rec \<and>
          a_check_in_time rec = Some 1901 \<and> a_status rec = ''late'')"
proof -
  have g: "get_attendance ann_registered 2 = None"
    by (simp add: get_attendance_def ann_registered_rows)
  have u: "\<forall>a. get_attendance ann_registered 2 = Some a \<longrightarrow> a_check_in_time a = None"
    by (simp add: g)
  note t = check_in_classifies[OF ann_registered_rows(1) _ _ u, simplified,
                               OF ann_registered_rows(2)]
  show ?thesis
    using g t[of 1900] t[of 1901] by (auto simp: timedelta_minutes_def)
qed


text \<open>
  C6. For a registration with status \<open>registered\<close>: a check-in when a check-in time is
  recorded, a check-out when none is recorded (or no record exists), and a check-out
  when a check-out time is recorded are each refused with their own error, and the
  database stays as it was. A check-in when no attendance record exists creates one,
  born with status \<open>absent\<close> and no timestamps, and stores it with the check-in time
  and the status of the check-in.
\<close>

theorem attendance_state_machine_rejects:
  fixes rid now d
  defines "check_in \<equiv> mark_attendance \<lparr>ac_registration_id = rid, ac_action = ''check_in''\<rparr> now d"
  defines "check_out \<equiv> mark_attendance \<lparr>ac_registration_id = rid, ac_action = ''check_out''\<rparr> now d"
  assumes reg: "get_registration d rid = Some reg" "r_status reg = ''registered''"
  shows "((\<exists>a t. get_attendance d rid = Some a \<and> a_check_in_time a = Some t) \<longrightarrow>
            check_in = (Inl (HTTPException 400 ''Student already checked in''), d)) \<and>
         ((\<forall>a. get_attendance d rid = Some a \<longrightarrow> a_check_in_time a = None) \<longrightarrow>
            check_out = (Inl (HTTPException 400 ''Student must check in before checking out''), d)) \<and>
         ((\<exists>a t out. get_attendance d rid = Some a \<and> a_check_in_time a = Some t \<and>
                      a_check_out_time a = Some out) \<longrightarrow>
            check_out = (Inl (HTTPException 400 ''Student already checked out''), d)) \<and>
         (get_attendance d rid = None \<longrightarrow>
            a_status (new_attendance d rid) = ''absent'' \<and>
            a_check_in_time (new_attendance d rid) = None \<and>
            (\<exists>st \<in> {''present'', ''late''}. check_in =
               (Inr (new_attendance d rid\<lparr> a_check_in_time := Some now, a_status := st \<rparr>),
                d\<lparr> attendance := attendance d @
                     [new_attendance d rid\<lparr> a_check_in_time := Some now, a_status := st \<rparr>] \<rparr>)))"
proof (intro conjI impI, goal_cases)
  case 1
  then show ?case
    unfolding check_in_def mark_attendance_registered[OF reg]
    by (auto simp: attendance_record_def)
next
  case 2
  then have "a_check_in_time (attendance_record d rid) = None"
    by (auto simp: attendance_record_def new_attendance_def split: option.splits)
  then show ?case
    unfolding check_out_def mark_attendance_registered[OF reg] by simp
next
  case 3
  then show ?case
    unfolding check_out_def mark_attendance_registered[OF reg]
    by (auto simp: attendance_record_def)
next
  case 4
  show ?case by (simp add: new_attendance_def)
next
  case 5
  show ?case by (simp add: new_attendance_def)
next
  case 6
  let ?n = "new_attendance d rid"
  have fresh: "\<forall>x\<in>set (attendance d). a_id x \<noteq> a_id ?n"
  proof
    fix x assume "x \<in> set (attendance d)"
    then have "a_id x \<in> set (map a_id (attendance d))" by simp
    from next_id_above[OF this] show "a_id x \<noteq> a_id ?n" by (simp add: new_attendance_def)
  qed
  have upd: "update_attendance (?n\<lparr> a_check_in_time := Some now, a_status := st \<rparr>)
               (attendance d @ [?n]) =
             attendance d @ [?n\<lparr> a_check_in_time := Some now, a_status := st \<rparr>]" for st
    by (rule update_attendance_fresh) (use fresh in simp_all)
  have r0: "attendance_record d rid = ?n" "pending d rid = attendance d @ [?n]"
    using 6 by (simp_all add: attendance_record_def pending_def)
  have n0: "a_check_in_time ?n = None" "a_check_out_time ?n = None"
    by (simp_all add: new_attendance_def)
  show ?case
    unfolding check_in_def mark_attendance_registered[OF reg] r0
    using n0 upd
    by (auto simp: commit_attendance_def check_checkout_after_checkin_def split: option.splits)
qed

theorem attendance_state_machine_rejects_witness:
  "mark_attendance \<lparr>ac_registration_id = 2, ac_action = ''check_in''\<rparr> 1600 ann_checked_in =
     (Inl (HTTPException 400 ''Student already checked in''), ann_checked_in) \<and>
   mark_attendance \<lparr>ac_registration_id = 2, ac_action = ''check_out''\<rparr> 1600 ann_registered =
     (Inl (HTTPException 400 ''Student must check in before checking out''), ann_registered) \<and>
   mark_attendance \<lparr>ac_registration_id = 2, ac_action = ''check_out''\<rparr> 4000 ann_checked_out =
     (Inl (HTTPException 400 ''Student already checked out''), ann_checked_out) \<and>
   get_attendance ann_registered 2 = None \<and>
   (\<exists>st \<in> {''present'', ''late''}.
      attendance (snd (mark_attendance \<lparr>ac_registration_id = 2, ac_action = ''check_in''\<rparr> 1600
                         ann_registered)) =
        [\<lparr>a_id = 1, a_registration_id = 2, a_check_in_time = Some 1600,
          a_check_out_time = None, a_status = st\<rparr>])"
proof -
  have r: "r_status \<lparr>r_id = 2, r_student_id = 1, r_event_id = 1, r_registered_at = 0,
           r_status = ''registered''\<rparr> = ''registered''" by simp
  have g0: "get_attendance ann_registered 2 = None"
    by (simp add: get_attendance_def ann_registered_rows)
  have g1: "get_attendance ann_checked_in 2 =
     Some \<lparr>a_id = 1, a_registration_id = 2, a_check_in_time = Some 1500,
       a_check_out_time = None, a_status = ''present''\<rparr>"
    by (simp add: get_attendance_def ann_checked_in_rows)
  have g2: "get_attendance ann_checked_out 2 =
     Some \<lparr>a_id = 1, a_registration_id = 2, a_check_in_time = Some 1500,
       a_check_out_time = Some 3000, a_status = ''present''\<rparr>"
    by (simp add: get_attendance_def ann_checked_out_rows)
  note t = attendance_state_machine_rejects
  show ?thesis
    using t[OF ann_checked_in_rows(1) r, of 1600]
          t[OF ann_registered_rows(1) r, of 1600]
          t[OF ann_checked_out_rows(1) r, of 4000]
    by (auto simp: g0 g1 g2 new_attendance_def next_id_def ann_registered_rows)
qed


section \<open>Feedback\<close>

text \<open>
  C7. A feedback request succeeds exactly when the registration exists, an attendance
  record of it has status \<open>present\<close> or \<open>late\<close>, no feedback for it is stored and the
  rating is between 1 and 5; the feedback is then appended with that rating. The
  failures, in the order the request meets them: a rating outside 1..5 is refused by the
  validator of the request body, before the handler runs; a missing registration; an
  attendance that is missing or \<open>absent\<close>; feedback already given. The four errors are
  pairwise different, and each leaves the database as it was.
\<close>

theorem feedback_gate:
  fixes rid rating comment now d
  defines "request \<equiv> post_feedback rid rating comment now d"
  defines "attended \<equiv> \<exists>a \<in> set (attendance d).
             a_registration_id a = rid \<and> a_status a \<in> {''present'', ''late''}"
  defines "given \<equiv> \<exists>f \<in> set (feedback d). f_registration_id f = rid"
  shows
    "((\<exists>fb. fst request = Inr fb) \<longleftrightarrow>
        get_registration d rid \<noteq> None \<and> attended \<and> \<not> given \<and> 1 \<le> rating \<and> rating \<le> 5) \<and>
     (\<forall>fb. fst request = Inr fb \<longrightarrow>
        f_registration_id fb = rid \<and> f_rating fb = rating \<and> f_comment fb = comment \<and>
        snd request = d\<lparr> feedback := feedback d @ [fb] \<rparr>) \<and>
     (rating < 1 \<or> rating > 5 \<longrightarrow>
        request = (Inl (ValueError ''Rating must be between 1 and 5''), d)) \<and>
     (1 \<le> rating \<and> rating \<le> 5 \<and> get_registration d rid = None \<longrightarrow>
        request = (Inl (HTTPException 404 ''Registration not found''), d)) \<and>
     (1 \<le> rating \<and> rating \<le> 5 \<and> get_registration d rid \<noteq> None \<and> \<not> attended \<longrightarrow>
        request = (Inl (HTTPException 400
                     ''Only students who attended the event can submit feedback''), d)) \<and>
     (1 \<le> rating \<and> rating \<le> 5 \<and> get_registration d rid \<noteq> None \<and> attended \<and> given \<longrightarrow>
        request = (Inl (HTTPException 400 ''Feedback already submitted for this event''), d)) \<and>
     distinct [ValueError ''Rating must be between 1 and 5'',
               HTTPException 404 ''Registration not found'',
               HTTPException 400 ''Only students who attended the event can submit feedback'',
               HTTPException 400 ''Feedback already submitted for this event'']"
proof -
  have att: "attended \<longleftrightarrow>
      find (\<lambda>a. a_registration_id a = rid \<and> a_status a \<in> set [''present'', ''late''])
           (attendance d) \<noteq> None"
    unfolding attended_def by (auto simp: find_None_iff)
  have giv: "given \<longleftrightarrow> find (\<lambda>f. f_registration_id f = rid) (feedback d) \<noteq> None"
    unfolding given_def by (auto simp: find_None_iff)
  show ?thesis
    unfolding att giv request_def
    by (auto simp: feedback_defs Let_def split: option.splits sum.splits if_splits)
qed

text \<open>
  Ann, checked in and out, rates the talk 5; ratings 0 and 6; an unknown registration;
  Cyd, whose attendance is \<open>absent\<close>; Ann before any attendance record; Ann a second
  time.
\<close>

theorem feedback_gate_witness:
  "(\<exists>fb. fst (post_feedback 2 5 (Some ''Great talk'') 6000 ann_checked_out) = Inr fb \<and>
         f_registration_id fb = 2 \<and> f_rating fb = 5 \<and>
         feedback ann_gave_feedback = [fb]) \<and>
   post_feedback 2 0 None 6000 ann_checked_out =
     (Inl (ValueError ''Rating must be between 1 and 5''), ann_checked_out) \<and>
   post_feedback 2 6 None 6000 ann_checked_out =
     (Inl (ValueError ''Rating must be between 1 and 5''), ann_checked_out) \<and>
   post_feedback 9 4 None 6000 ann_checked_out =
     (Inl (HTTPException 404 ''Registration not found''), ann_checked_out) \<and>
   post_feedback 1 4 None 6000 cyd_absent =
     (Inl (HTTPException 400 ''Only students who attended the event can submit feedback''),
      cyd_absent) \<and>
   post_feedback 2 4 None 6000 ann_registered =
     (Inl (HTTPException 400 ''Only students who attended the event can submit feedback''),
      ann_registered) \<and>
   post_feedback 2 3 None 7000 ann_gave_feedback =
     (Inl (HTTPException 400 ''Feedback already submitted for this event''),
      ann_gave_feedback)"
proof -
  have out: "get_registration ann_checked_out 2 \<noteq> None" "get_registration ann_checked_out 9 = None"
       "attendance ann_checked_out =
          [\<lparr>a_id = 1, a_registration_id = 2, a_check_in_time = Some 1500,
            a_check_out_time = Some 3000, a_status = ''present''\<rparr>]"
       "feedback ann_checked_out = []"
    by (simp_all add: example_states registration_defs attendance_defs)
  have cyd: "get_registration cyd_absent 1 \<noteq> None"
       "attendance cyd_absent =
          [\<lparr> a_id = 1, a_registration_id = 1, a_check_in_time = None,
             a_check_out_time = None, a_status = ''absent'' \<rparr>]"
    by (simp_all add: example_states registration_defs)
  have ann: "get_registration ann_registered 2 \<noteq> None" "attendance ann_registered = []"
    by (simp_all add: example_states registration_defs)
  have fb: "get_registration ann_gave_feedback 2 \<noteq> None"
       "attendance ann_gave_feedback =
          [\<lparr>a_id = 1, a_registration_id = 2, a_check_in_time = Some 1500,
            a_check_out_time = Some 3000, a_status = ''present''\<rparr>]"
       "feedback ann_gave_feedback =
          [\<lparr>f_id = 1, f_registration_id = 2, f_rating = 5, f_comment = Some ''Great talk'',
            f_submitted_at = 6000\<rparr>]"
    by (simp_all add: example_states registration_defs attendance_defs feedback_defs)
  note t = feedback_gate
  have c0: "\<exists>fb. fst (post_feedback 2 5 (Some ''Great talk'') 6000 ann_checked_out) = Inr fb \<and>
         f_registration_id fb = 2 \<and> f_rating fb = 5 \<and>
         feedback ann_gave_feedback = [fb]"
    using t[of 2 5 "Some ''Great talk''" 6000 ann_checked_out]
    by (auto simp: out ann_gave_feedback_def)
  have c1: "post_feedback 2 0 None 6000 ann_checked_out =
     (Inl (ValueError ''Rating must be between 1 and 5''), ann_checked_out)"
    using t[of 2 0 None 6000 ann_checked_out] by simp
  have c2: "post_feedback 2 6 None 6000 ann_checked_out =
     (Inl (ValueError ''Rating must be between 1 and 5''), ann_checked_out)"
    using t[of 2 6 None 6000 ann_checked_out] by simp
  have c3: "post_feedback 9 4 None 6000 ann_checked_out =
     (Inl (HTTPException 404 ''Registration not found''), ann_checked_out)"
    using t[of 9 4 None 6000 ann_checked_out] by (simp add: out)
  have c4: "post_feedback 1 4 None 6000 cyd_absent =
     (Inl (HTTPException 400 ''Only students who attended the event can submit feedback''),
      cyd_absent)"
    using t[of 1 4 None 6000 cyd_absent] by (simp add: cyd)
  have c5: "post_feedback 2 4 None 6000 ann_registered =
     (Inl (HTTPException 400 ''Only students who attended the event can submit feedback''),
      ann_registered)"
    using t[of 2 4 None 6000 ann_registered] by (simp add: ann)
  have c6: "post_feedback 2 3 None 7000 ann_gave_feedback =
     (Inl (HTTPException 400 ''Feedback already submitted for this event''),
      ann_gave_feedback)"
    using t[of 2 3 None 7000 ann_gave_feedback] by (simp add: fb)
  show ?thesis
    using c0 c1 c2 c3 c4 c5 c6 by simp
qed


section \<open>Reports\<close>

lemmas report_defs =
  get_attendance_summary_report_def get_event_popularity_report_def left_join_def group_by_def
  sql_count_def sql_limit_def sql_div_def sql_round2_def college_filter_def event_columns_def
  popularity_select_def attendance_select_def status_is_def percentage_desc_def Let_def


lemma left_join_fst: "row \<in> set (left_join xs on ys) \<Longrightarrow> fst row \<in> set xs"
proof -
  assume "row \<in> set (left_join xs on ys)"
  then obtain x where x: "x \<in> set xs"
    and row: "row \<in> set (case filter (on x) ys of [] \<Rightarrow> [(x, None)]
                           | y # ys' \<Rightarrow> map (\<lambda>m. (x, Some m)) (y # ys'))"
    unfolding left_join_def by auto
  from row have "fst row = x"
    by (cases "filter (on x) ys") auto
  with x show ?thesis by simp
qed

lemma left_join_covers: "x \<in> set xs \<Longrightarrow> \<exists>y. (x, y) \<in> set (left_join xs on ys)"
  unfolding left_join_def
  by (cases "filter (on x) ys") (auto split: list.splits intro!: bexI[of _ x])

lemma group_by_keys: "fst ` set (group_by key rows) = key ` set rows"
  unfolding group_by_def by (auto simp: image_iff)

lemma group_by_rows:
  "(k, g) \<in> set (group_by key rows) \<Longrightarrow> g = filter (\<lambda>r. key r = k) rows \<and> k \<in> key ` set rows"
  unfolding group_by_def by auto

lemma attendance_select_columns:
  "t_event_id (attendance_select (event_columns e, rows)) = e_id e"
  "t_current_registrations (attendance_select (event_columns e, rows)) = e_current_registrations e"
  by (simp_all add: attendance_select_def event_columns_def)

lemma attendance_select_zero:
  "t_current_registrations (attendance_select g) = 0 \<Longrightarrow>
   t_attendance_percentage (attendance_select g) = None"
  by (cases g) (auto simp: attendance_select_def sql_div_def sql_round2_def)


lemma floor_half: "\<lfloor>(1::rat) / 2\<rfloor> = 0"
  by (rule floor_unique) simp_all


text \<open>
  C8. The attendance summary is a total function of the database: the only operation in
  it that can fail is the division by \<open>e.current_registrations\<close>, and under SQLite a
  division by zero is NULL. So every row of the report whose event has the counter 0
  carries the percentage NULL, and every event in the report's scope (status \<open>active\<close>
  or \<open>completed\<close>, in the college asked for) with counter 0 has such a row.
\<close>

theorem attendance_summary_zero_registrations:
  "(\<forall>row \<in> set (get_attendance_summary_report college_id d).
      t_current_registrations row = 0 \<longrightarrow> t_attendance_percentage row = None) \<and>
   (\<forall>e \<in> set (events d).
      e_status e \<in> {''active'', ''completed''} \<and> college_filter college_id e \<and>
      e_current_registrations e = 0 \<longrightarrow>
        (\<exists>row \<in> set (get_attendance_summary_report college_id d).
           t_event_id row = e_id e \<and> t_current_registrations row = 0 \<and>
           t_attendance_percentage row = None))"
proof (intro conjI ballI impI)
  fix row
  assume "row \<in> set (get_attendance_summary_report college_id d)"
    and "t_current_registrations row = 0"
  then show "t_attendance_percentage row = None"
    by (auto simp: get_attendance_summary_report_def Let_def attendance_select_zero)
next
  fix e
  assume e: "e \<in> set (events d)"
    and sel: "e_status e \<in> {''active'', ''completed''} \<and> college_filter college_id e \<and>
              e_current_registrations e = 0"
  let ?j1 = "left_join (events d) (\<lambda>e r. e_id e = r_event_id r) (registrations d)"
  let ?on = "\<lambda>(e, r) a. case r of None \<Rightarrow> False | Some r' \<Rightarrow> r_id r' = a_registration_id a"
  let ?j2 = "left_join ?j1 ?on (attendance d)"
  let ?sel = "filter (\<lambda>((e, r), a). e_status e \<in> set [''active'', ''completed''] \<and>
                                    college_filter college_id e) ?j2"
  let ?key = "\<lambda>((e, r), a). event_columns e"
  from left_join_covers[OF e] obtain r where "(e, r) \<in> set ?j1" by blast
  from left_join_covers[OF this] obtain a where "((e, r), a) \<in> set ?j2" by blast
  then have "((e, r), a) \<in> set ?sel" using sel by simp
  then have "event_columns e \<in> ?key ` set ?sel" by force
  then have "event_columns e \<in> fst ` set (group_by ?key ?sel)"
    by (simp only: group_by_keys)
  then obtain g where g: "(event_columns e, g) \<in> set (group_by ?key ?sel)" by force
  let ?row = "attendance_select (event_columns e, g)"
  have "?row \<in> set (get_attendance_summary_report college_id d)"
    using g by (force simp: get_attendance_summary_report_def Let_def)
  moreover have "t_event_id ?row = e_id e" "t_current_registrations ?row = 0"
    using sel by (simp_all add: attendance_select_columns)
  ultimately show "\<exists>row \<in> set (get_attendance_summary_report college_id d).
           t_event_id row = e_id e \<and> t_current_registrations row = 0 \<and>
           t_attendance_percentage row = None"
    using attendance_select_zero[of "(event_columns e, g)"] by blast
qed

text \<open>At \<open>campus\<close> nobody is registered for the talk (event 1); the lab has one seat taken.\<close>

theorem attendance_summary_zero_registrations_witness:
  "(\<exists>row \<in> set (get_attendance_summary_report None campus).
      t_event_id row = 1 \<and> t_current_registrations row = 0 \<and>
      t_attendance_percentage row = None) \<and>
   map (\<lambda>row. (t_event_id row, t_current_registrations row, t_attendance_percentage row))
       (get_attendance_summary_report None campus) = [(3, 1, Some 0), (1, 0, None)]"
proof -
  let ?talk = "\<lparr> e_id = 1, e_college_id = 1, e_title = ''Talk'', e_event_type = ''seminar'',
            e_start_time = 1000, e_end_time = 5000, e_max_capacity = 10,
            e_current_registrations = 0, e_status = ''active'' \<rparr>"
  have talk: "?talk \<in> set (events campus)"
    by (simp add: campus_def)
  have sel: "e_status ?talk \<in> {''active'', ''completed''} \<and> college_filter None ?talk \<and>
             e_current_registrations ?talk = 0"
    by (simp add: college_filter_def)
  have a: "\<exists>row \<in> set (get_attendance_summary_report None campus).
      t_event_id row = 1 \<and> t_current_registrations row = 0 \<and>
      t_attendance_percentage row = None"
    using attendance_summary_zero_registrations[of None campus] talk sel by fastforce
  have b: "map (\<lambda>row. (t_event_id row, t_current_registrations row, t_attendance_percentage row))
       (get_attendance_summary_report None campus) = [(3, 1, Some 0), (1, 0, None)]"
    by (simp add: campus_def report_defs floor_half)
  show ?thesis using a b by simp
qed

lemma sorted_popularity:
  "sorted_wrt popularity_order
     (sort_key (\<lambda>row. (- p_total_registrations row, - p_current_registrations row)) rows)"
proof -
  let ?f = "\<lambda>row. (- p_total_registrations row, - p_current_registrations row)"
  have "sorted (map ?f (sort_key ?f rows))" by (rule sorted_sort_key)
  then have "sorted_wrt (\<lambda>a b. ?f a \<le> ?f b) (sort_key ?f rows)"
    by (simp add: sorted_map)
  then show ?thesis
    by (rule sorted_wrt_mono_rel[rotated]) (auto simp: popularity_order_def less_eq_prod_def)
qed

lemma sorted_wrt_sql_limit: "sorted_wrt R rows \<Longrightarrow> sorted_wrt R (sql_limit n rows)"
  by (simp add: sql_limit_def sorted_wrt_take)

lemma set_sql_limit: "set (sql_limit n rows) \<subseteq> set rows"
  by (auto simp: sql_limit_def dest: in_set_takeD)

lemma popularity_select_columns:
  "p_id (popularity_select (event_columns e, rows)) = e_id e"
  "p_current_registrations (popularity_select (event_columns e, rows)) = e_current_registrations e"
  "p_max_capacity (popularity_select (event_columns e, rows)) = e_max_capacity e"
  "p_total_registrations (popularity_select (k, rows)) = sql_count (\<lambda>(e, r). r \<noteq> None) rows"
  by (simp_all add: popularity_select_def event_columns_def split: prod.splits)

lemma report_as_groups:
  "get_event_popularity_report college_id limit d =
     sql_limit limit
       (sort_key (\<lambda>row. (- p_total_registrations row, - p_current_registrations row))
          (map popularity_select (popularity_groups college_id d)))"
  by (simp add: get_event_popularity_report_def popularity_groups_def Let_def)

text \<open>Rows of one left operand, picked out of the join.\<close>

lemma filter_concat_one:
  assumes "distinct xs" and "e \<in> set xs"
    and "\<forall>row \<in> set (f e). P row"
    and "\<forall>x \<in> set xs. x \<noteq> e \<longrightarrow> (\<forall>row \<in> set (f x). \<not> P row)"
  shows "filter P (concat (map f xs)) = f e"
  using assms
proof (induction xs)
  case Nil
  then show ?case by simp
next
  case (Cons x xs)
  show ?case
  proof (cases "x = e")
    case True
    then have "e \<notin> set xs" using Cons.prems(1) by simp
    then have "\<forall>y \<in> set xs. \<forall>row \<in> set (f y). \<not> P row"
      using Cons.prems(4) by auto
    then have "filter P (concat (map f xs)) = []"
      by (auto simp: filter_empty_conv)
    moreover have "filter P (f x) = f e"
      using True Cons.prems(3) by (simp add: filter_id_conv)
    ultimately show ?thesis by simp
  next
    case False
    then have "filter P (f x) = []"
      using Cons.prems(4) by (auto simp: filter_empty_conv)
    moreover have "filter P (concat (map f xs)) = f e"
      using Cons False by auto
    ultimately show ?thesis by simp
  qed
qed

lemma joined_rows_fst: "row \<in> set (joined_rows d e) \<Longrightarrow> fst row = e"
  by (cases "filter (\<lambda>r. e_id e = r_event_id r) (registrations d)")
     (auto simp: joined_rows_def)

lemma count_joined_rows:
  "sql_count (\<lambda>(e, r). r \<noteq> None) (joined_rows d e) = int (length (registrations_of d (e_id e)))"
proof -
  have eq: "(\<lambda>r. e_id e = r_event_id r) = (\<lambda>r. r_event_id r = e_id e)" by auto
  show ?thesis
    by (cases "filter (\<lambda>r. r_event_id r = e_id e) (registrations d)")
       (auto simp: joined_rows_def sql_count_def registrations_of_def eq filter_map comp_def)
qed

lemma group_of_event:
  assumes dist: "distinct (map e_id (events d))" and e: "e \<in> set (events d)"
    and sel: "e_status e = ''active''" "college_filter college_id e"
  shows "(event_columns e, joined_rows d e) \<in> set (popularity_groups college_id d)"
proof -
  let ?sel = "\<lambda>(e, r). e_status e = ''active'' \<and> college_filter college_id e"
  let ?joined = "left_join (events d) (\<lambda>e r. e_id e = r_event_id r) (registrations d)"
  let ?key = "\<lambda>(e, r). event_columns e"
  let ?P = "\<lambda>row. ?key row = event_columns e \<and> ?sel row"
  have j: "?joined = concat (map (joined_rows d) (events d))"
    by (simp add: left_join_def joined_rows_def[abs_def])
  have d': "distinct (events d)" using dist by (simp add: distinct_map)
  have other: "\<forall>x \<in> set (events d). x \<noteq> e \<longrightarrow> (\<forall>row \<in> set (joined_rows d x). \<not> ?P row)"
  proof (intro ballI impI)
    fix x row assume x: "x \<in> set (events d)" "x \<noteq> e" and row: "row \<in> set (joined_rows d x)"
    have "e_id x \<noteq> e_id e"
      using dist x e by (auto simp: distinct_map inj_on_def)
    then show "\<not> ?P row"
      using joined_rows_fst[OF row] by (auto simp: event_columns_def split: prod.splits)
  qed
  have mine: "\<forall>row \<in> set (joined_rows d e). ?P row"
    using sel by (auto dest!: joined_rows_fst split: prod.splits)
  have rows: "filter ?P ?joined = joined_rows d e"
    unfolding j by (rule filter_concat_one[OF d' e mine other])
  have "filter (\<lambda>row. ?key row = event_columns e) (filter ?sel ?joined) = filter ?P ?joined"
    by (simp add: conj_commute)
  then have g: "filter (\<lambda>row. ?key row = event_columns e) (filter ?sel ?joined) = joined_rows d e"
    using rows by simp
  have ne: "joined_rows d e \<noteq> []"
    by (cases "filter (\<lambda>r. e_id e = r_event_id r) (registrations d)") (auto simp: joined_rows_def)
  then obtain row where row: "row \<in> set (joined_rows d e)" by (cases "joined_rows d e") auto
  then have "row \<in> set (filter (\<lambda>row. ?key row = event_columns e) (filter ?sel ?joined))"
    using g by simp
  then have "row \<in> set (filter ?sel ?joined)" "?key row = event_columns e"
    by simp_all
  then have "event_columns e \<in> set (map ?key (filter ?sel ?joined))"
    by force
  then show ?thesis
    unfolding popularity_groups_def group_by_def using g by auto
qed

lemma group_is_event:
  assumes "(k, g) \<in> set (popularity_groups college_id d)"
  shows "\<exists>e \<in> set (events d). e_status e = ''active'' \<and> college_filter college_id e \<and>
           k = event_columns e"
proof -
  let ?sel = "\<lambda>(e, r). e_status e = ''active'' \<and> college_filter college_id e"
  let ?joined = "left_join (events d) (\<lambda>e r. e_id e = r_event_id r) (registrations d)"
  from assms have "k \<in> set (map (\<lambda>(e, r). event_columns e) (filter ?sel ?joined))"
    unfolding popularity_groups_def group_by_def by auto
  then obtain row where row: "row \<in> set ?joined" "?sel row"
    and k: "k = (\<lambda>(e, r). event_columns e) row"
    by auto
  obtain e r where er: "row = (e, r)" by (cases row)
  have "e \<in> set (events d)" using left_join_fst[OF row(1)] er by simp
  then show ?thesis using row(2) k er by auto
qed

lemma fair_ranking:
  "map (\<lambda>row. (p_id row, p_current_registrations row, p_max_capacity row,
               p_total_registrations row))
     (get_event_popularity_report None 10 fair) = [(2, 10, 10, 10), (1, 5, 10, 5), (3, 0, 5, 0)]"
  by (simp add: fair_def registered_for_def report_defs)

lemma group_rows_unique:
  assumes "(k, g) \<in> set (popularity_groups college_id d)"
    and "(k, g') \<in> set (popularity_groups college_id d)"
  shows "g = g'"
  using assms unfolding popularity_groups_def
  by (auto dest!: group_by_rows)

lemma report_rows:
  "set (get_event_popularity_report college_id limit d) \<subseteq>
     popularity_select ` set (popularity_groups college_id d)"
  unfolding report_as_groups using set_sql_limit by fastforce

lemma ranking_rows:
  "set (get_event_popularity_report college_id (- 1) d) =
     popularity_select ` set (popularity_groups college_id d)"
  unfolding report_as_groups by (simp add: sql_limit_def)

text \<open>
  C9. Every row of the popularity report belongs to an active event (of the college
  asked for, when one is given); the rows are in the order of
  \<open>total_registrations DESC, current_registrations DESC\<close>; with a limit \<open>N \<ge> 0\<close> the
  report is the first \<open>N\<close> rows of the full ranking, and a negative limit gives the full
  ranking. Where event ids are distinct (they are the primary key), each active event
  in scope has its row in the full ranking and \<open>total_registrations\<close> is the number of
  registration rows of the event, cancelled ones included. At the fair with
  registrations 5/10, 10/10 and 0/5 the order is 10/10, 5/10, 0/5.
\<close>

theorem event_popularity_ranking:
  fixes college_id limit d
  defines "report \<equiv> get_event_popularity_report college_id limit d"
  defines "ranking \<equiv> get_event_popularity_report college_id (- 1) d"
  defines "in_scope \<equiv> \<lambda>e. e_status e = ''active'' \<and> college_filter college_id e"
  shows
   "(\<forall>row \<in> set report. \<exists>e \<in> set (events d).
        in_scope e \<and> p_id row = e_id e \<and>
        p_current_registrations row = e_current_registrations e \<and>
        p_max_capacity row = e_max_capacity e) \<and>
    sorted_wrt popularity_order report \<and>
    (0 \<le> limit \<longrightarrow> report = take (nat limit) ranking \<and> length report \<le> nat limit) \<and>
    (limit < 0 \<longrightarrow> report = ranking) \<and>
    (distinct (map e_id (events d)) \<longrightarrow>
       (\<forall>e \<in> set (events d). in_scope e \<longrightarrow>
          (\<exists>row \<in> set ranking.
             p_id row = e_id e \<and>
             p_current_registrations row = e_current_registrations e \<and>
             p_total_registrations row = int (length (registrations_of d (e_id e))))) \<and>
       (\<forall>row \<in> set report.
          p_total_registrations row = int (length (registrations_of d (p_id row))))) \<and>
    map (\<lambda>row. (p_id row, p_current_registrations row, p_max_capacity row,
                p_total_registrations row))
      (get_event_popularity_report None 10 fair) =
      [(2, 10, 10, 10), (1, 5, 10, 5), (3, 0, 5, 0)]"
proof (intro conjI ballI impI, goal_cases)
  case (1 row)
  then obtain k g where kg: "(k, g) \<in> set (popularity_groups college_id d)"
    and row: "row = popularity_select (k, g)"
    using report_rows[of college_id limit d] unfolding report_def by auto
  from group_is_event[OF kg] obtain e where "e \<in> set (events d)" "in_scope e" "k = event_columns e"
    unfolding in_scope_def by blast
  then show ?case
    using row by (auto simp: popularity_select_columns)
next
  case 2
  show ?case
    unfolding report_def report_as_groups
    by (intro sorted_wrt_sql_limit sorted_popularity)
next
  case 3
  then show ?case
    unfolding report_def ranking_def report_as_groups by (simp add: sql_limit_def)
next
  case 4
  then show ?case
    unfolding report_def report_as_groups by (simp add: sql_limit_def)
next
  case 5
  then show ?case
    unfolding report_def ranking_def report_as_groups by (simp add: sql_limit_def)
next
  case (6 e)
  then have g: "(event_columns e, joined_rows d e) \<in> set (popularity_groups college_id d)"
    unfolding in_scope_def by (intro group_of_event) auto
  let ?row = "popularity_select (event_columns e, joined_rows d e)"
  have "?row \<in> set ranking"
    unfolding ranking_def ranking_rows using g by (rule imageI)
  moreover have "p_id ?row = e_id e"
    "p_current_registrations ?row = e_current_registrations e"
    "p_total_registrations ?row = int (length (registrations_of d (e_id e)))"
    by (simp_all add: popularity_select_columns count_joined_rows del: not_None_eq)
  ultimately show ?case by blast
next
  case (7 row)
  then obtain k g where kg: "(k, g) \<in> set (popularity_groups college_id d)"
    and row: "row = popularity_select (k, g)"
    using report_rows[of college_id limit d] unfolding report_def by auto
  from group_is_event[OF kg] obtain e where e: "e \<in> set (events d)"
    "e_status e = ''active''" "college_filter college_id e" and k: "k = event_columns e"
    by blast
  have "(event_columns e, joined_rows d e) \<in> set (popularity_groups college_id d)"
    using 7(1) e by (intro group_of_event)
  then have "g = joined_rows d e"
    using kg k group_rows_unique by blast
  then show ?case
    using row k by (simp add: popularity_select_columns count_joined_rows del: not_None_eq)
next
  case 8
  show ?case by (rule fair_ranking)
qed

text \<open>The fair with a limit of 2, without a limit, and asked for a college it has not.\<close>

theorem event_popularity_ranking_witness:
  "map p_id (get_event_popularity_report None 2 fair) = [2, 1] \<and>
   length (get_event_popularity_report None 2 fair) \<le> 2 \<and>
   sorted_wrt popularity_order (get_event_popularity_report None 2 fair) \<and>
   distinct (map e_id (events fair)) \<and>
   (\<exists>row \<in> set (get_event_popularity_report None (- 1) fair).
      p_id row = 3 \<and> p_current_registrations row = 0 \<and>
      p_total_registrations row = int (length (registrations_of fair 3))) \<and>
   get_event_popularity_report (Some 7) 10 fair = []"
proof -
  let ?poetry = "\<lparr> e_id = 3, e_college_id = 1, e_title = ''Poetry'', e_event_type = ''reading'',
            e_start_time = 1000, e_end_time = 5000, e_max_capacity = 5,
            e_current_registrations = 0, e_status = ''active'' \<rparr>"
  have dist: "distinct (map e_id (events fair))"
    by (simp add: fair_def)
  have poetry: "?poetry \<in> set (events fair)"
    by (simp add: fair_def)
  have scope: "e_status ?poetry = ''active'' \<and> college_filter None ?poetry"
    by (simp add: college_filter_def)
  note t = event_popularity_ranking[where college_id = None and limit = 2 and d = fair]
  have sorted: "sorted_wrt popularity_order (get_event_popularity_report None 2 fair)"
    using t by blast
  have len: "length (get_event_popularity_report None 2 fair) \<le> 2"
    using t by simp
  have "\<forall>e \<in> set (events fair). e_status e = ''active'' \<and> college_filter None e \<longrightarrow>
          (\<exists>row \<in> set (get_event_popularity_report None (- 1) fair).
             p_id row = e_id e \<and>
             p_current_registrations row = e_current_registrations e \<and>
             p_total_registrations row = int (length (registrations_of fair (e_id e))))"
    using t dist by blast
  from this[rule_format, OF poetry scope]
  have row: "\<exists>row \<in> set (get_event_popularity_report None (- 1) fair).
      p_id row = 3 \<and> p_current_registrations row = 0 \<and>
      p_total_registrations row = int (length (registrations_of fair 3))"
    by simp
  have top: "map p_id (get_event_popularity_report None 2 fair) = [2, 1]"
    by (simp add: fair_def registered_for_def report_defs)
  have other: "get_event_popularity_report (Some 7) 10 fair = []"
    by (simp add: fair_def registered_for_def report_defs)
  show ?thesis
    using top len sorted dist row other by simp
qed

end
